theory Spec2Isabelle
  imports Complex_Main
begin

section \<open>JavaScript numbers\<close>

text \<open>
  The editor computes with JavaScript numbers. They are modelled as the real numbers
  extended with the three special values of IEEE 754 arithmetic that the code can
  observe: \<open>NaN\<close>, \<open>Infinity\<close> and \<open>-Infinity\<close>. Arithmetic on finite values is
  exact: rounding to a double and overflow are outside the model, and the two zeros of
  IEEE arithmetic are identified (a division by zero takes the zero to be positive).
\<close>

datatype jsnum = Num real | PosInf | NegInf | NaN

fun is_finite :: "jsnum \<Rightarrow> bool" where
  "is_finite (Num r) = True"
| "is_finite v = False"

fun the_real :: "jsnum \<Rightarrow> real" where
  "the_real (Num r) = r"
| "the_real v = 0"

instantiation jsnum :: "{plus, minus, uminus, times, inverse, abs, ord}"
begin

fun uminus_jsnum :: "jsnum \<Rightarrow> jsnum" where
  "uminus_jsnum (Num a) = Num (- a)"
| "uminus_jsnum PosInf = NegInf"
| "uminus_jsnum NegInf = PosInf"
| "uminus_jsnum NaN = NaN"

fun plus_jsnum :: "jsnum \<Rightarrow> jsnum \<Rightarrow> jsnum" where
  "plus_jsnum (Num a) (Num b) = Num (a + b)"
| "plus_jsnum NaN v = NaN"
| "plus_jsnum v NaN = NaN"
| "plus_jsnum PosInf NegInf = NaN"
| "plus_jsnum NegInf PosInf = NaN"
| "plus_jsnum PosInf v = PosInf"
| "plus_jsnum NegInf v = NegInf"
| "plus_jsnum v PosInf = PosInf"
| "plus_jsnum v NegInf = NegInf"

definition minus_jsnum :: "jsnum \<Rightarrow> jsnum \<Rightarrow> jsnum" where
  "minus_jsnum a b = a + (- b)"

fun times_jsnum :: "jsnum \<Rightarrow> jsnum \<Rightarrow> jsnum" where
  "times_jsnum (Num a) (Num b) = Num (a * b)"
| "times_jsnum NaN v = NaN"
| "times_jsnum v NaN = NaN"
| "times_jsnum PosInf (Num b) = (if b = 0 then NaN else if 0 < b then PosInf else NegInf)"
| "times_jsnum NegInf (Num b) = (if b = 0 then NaN else if 0 < b then NegInf else PosInf)"
| "times_jsnum (Num a) PosInf = (if a = 0 then NaN else if 0 < a then PosInf else NegInf)"
| "times_jsnum (Num a) NegInf = (if a = 0 then NaN else if 0 < a then NegInf else PosInf)"
| "times_jsnum PosInf PosInf = PosInf"
| "times_jsnum NegInf NegInf = PosInf"
| "times_jsnum PosInf NegInf = NegInf"
| "times_jsnum NegInf PosInf = NegInf"

fun divide_jsnum :: "jsnum \<Rightarrow> jsnum \<Rightarrow> jsnum" where
  "divide_jsnum (Num a) (Num b) =
     (if b = 0 then (if a = 0 then NaN else if 0 < a then PosInf else NegInf)
      else Num (a / b))"
| "divide_jsnum NaN v = NaN"
| "divide_jsnum v NaN = NaN"
| "divide_jsnum (Num a) v = Num 0"
| "divide_jsnum PosInf (Num b) = (if 0 \<le> b then PosInf else NegInf)"
| "divide_jsnum NegInf (Num b) = (if 0 \<le> b then NegInf else PosInf)"
| "divide_jsnum v w = NaN"

definition inverse_jsnum :: "jsnum \<Rightarrow> jsnum" where
  "inverse_jsnum a = divide (Num 1) a"

fun abs_jsnum :: "jsnum \<Rightarrow> jsnum" where
  "abs_jsnum (Num a) = Num \<bar>a\<bar>"
| "abs_jsnum PosInf = PosInf"
| "abs_jsnum NegInf = PosInf"
| "abs_jsnum NaN = NaN"

fun less_eq_jsnum :: "jsnum \<Rightarrow> jsnum \<Rightarrow> bool" where
  "less_eq_jsnum (Num a) (Num b) = (a \<le> b)"
| "less_eq_jsnum NaN v = False"
| "less_eq_jsnum v NaN = False"
| "less_eq_jsnum NegInf v = True"
| "less_eq_jsnum v PosInf = True"
| "less_eq_jsnum v w = False"

fun less_jsnum :: "jsnum \<Rightarrow> jsnum \<Rightarrow> bool" where
  "less_jsnum (Num a) (Num b) = (a < b)"
| "less_jsnum NaN v = False"
| "less_jsnum v NaN = False"
| "less_jsnum PosInf v = False"
| "less_jsnum v NegInf = False"
| "less_jsnum v w = True"

instance ..

end

text \<open>\<open>Math.max\<close> and \<open>Math.min\<close>: \<open>NaN\<close> as soon as one argument is \<open>NaN\<close>.\<close>

definition Math_max :: "jsnum \<Rightarrow> jsnum \<Rightarrow> jsnum" where
  "Math_max a b = (if a = NaN \<or> b = NaN then NaN else if a \<le> b then b else a)"

definition Math_min :: "jsnum \<Rightarrow> jsnum \<Rightarrow> jsnum" where
  "Math_min a b = (if a = NaN \<or> b = NaN then NaN else if a \<le> b then a else b)"

text \<open>\<open>Math.max(...xs)\<close> and \<open>Math.min(...xs)\<close> on a spread array; the empty array
  gives \<open>-Infinity\<close> and \<open>Infinity\<close>.\<close>

definition Math_max_list :: "jsnum list \<Rightarrow> jsnum" where
  "Math_max_list xs = foldr Math_max xs NegInf"

definition Math_min_list :: "jsnum list \<Rightarrow> jsnum" where
  "Math_min_list xs = foldr Math_min xs PosInf"

fun Math_cos :: "jsnum \<Rightarrow> jsnum" where
  "Math_cos (Num a) = Num (cos a)"
| "Math_cos v = NaN"

fun Math_sin :: "jsnum \<Rightarrow> jsnum" where
  "Math_sin (Num a) = Num (sin a)"
| "Math_sin v = NaN"

text \<open>\<open>Math.atan2(y, x)\<close> on finite arguments (the pointer position is finite).\<close>

definition atan2_real :: "real \<Rightarrow> real \<Rightarrow> real" where
  "atan2_real b a =
     (if 0 < a then arctan (b / a)
      else if a < 0 then (if 0 \<le> b then arctan (b / a) + pi else arctan (b / a) - pi)
      else if 0 < b then pi / 2 else if b < 0 then - pi / 2 else 0)"

fun Math_atan2 :: "jsnum \<Rightarrow> jsnum \<Rightarrow> jsnum" where
  "Math_atan2 (Num b) (Num a) = Num (atan2_real b a)"
| "Math_atan2 v w = NaN"

text \<open>The remainder operator \<open>%\<close>: the result has the sign of the dividend.\<close>

definition fmod_real :: "real \<Rightarrow> real \<Rightarrow> real" where
  "fmod_real a b =
     (if 0 \<le> a / b then a - b * of_int \<lfloor>a / b\<rfloor> else a - b * of_int \<lceil>a / b\<rceil>)"

fun js_rem :: "jsnum \<Rightarrow> jsnum \<Rightarrow> jsnum" where
  "js_rem (Num a) (Num b) = (if b = 0 then NaN else Num (fmod_real a b))"
| "js_rem (Num a) PosInf = Num a"
| "js_rem (Num a) NegInf = Num a"
| "js_rem v w = NaN"

section \<open>The scene model\<close>

record Point =
  pt_x :: jsnum
  pt_y :: jsnum

datatype element_type = Vertex | Edge

text \<open>The interface \<open>DiagramElement\<close>; its optional fields are options.\<close>

record DiagramElement =
  el_id :: string
  el_type :: element_type
  el_x :: jsnum
  el_y :: jsnum
  el_width :: jsnum
  el_height :: jsnum
  el_value :: string
  el_style :: string
  el_source :: "string option"
  el_target :: "string option"
  el_points :: "Point list option"
  el_rotation :: "jsnum option"

text \<open>The part of the component state of \<open>InteractiveDiagramEditor\<close> that the edit
  operations read and write.\<close>

record editor =
  elements :: "DiagramElement list"
  selectedElement :: "string option"
  history :: "DiagramElement list list"
  historyIndex :: int
  clipboard :: "DiagramElement option"
  isResizing :: bool
  resizeHandle :: string
  isRotating :: bool
  rotationCenter :: Point
  initialRotatePoints :: "Point list option"
  selectedArrowType :: string

datatype js_error = TypeError

text \<open>\<open>xs.slice(0, e)\<close>: a negative end counts from the end of the array.\<close>

definition slice0 :: "'a list \<Rightarrow> int \<Rightarrow> 'a list" where
  "slice0 xs e = (if e < 0 then take (nat (max (int (length xs) + e) 0)) xs else take (nat e) xs)"

text \<open>\<open>xs[i]\<close>, which is \<open>undefined\<close> out of range.\<close>

definition js_index :: "'a list \<Rightarrow> int \<Rightarrow> 'a option" where
  "js_index xs i = (if 0 \<le> i \<and> i < int (length xs) then Some (xs ! nat i) else None)"

text \<open>A selection is absent when it is \<open>null\<close> or the empty string (\<open>!selectedElement\<close>).\<close>

definition selected :: "editor \<Rightarrow> string option" where
  "selected s = (case selectedElement s of None \<Rightarrow> None | Some i \<Rightarrow> if i = [] then None else Some i)"

subsection \<open>History\<close>

text \<open>The handlers commit a snapshot with the same four lines: the history up to the
  cursor, the snapshot appended, the cursor on the last entry. \<open>saveToHistory\<close> commits
  the current elements. The calls of \<open>onXmlUpdate\<close> that go with a commit hand the encoded
  scene to the parent component and leave the state of the editor as it is.\<close>

definition push_history :: "DiagramElement list \<Rightarrow> editor \<Rightarrow> editor" where
  "push_history snapshot s =
     (let newHistory = slice0 (history s) (historyIndex s + 1) @ [snapshot]
      in s\<lparr>history := newHistory, historyIndex := int (length newHistory) - 1\<rparr>)"

definition saveToHistory :: "editor \<Rightarrow> editor" where
  "saveToHistory s = push_history (elements s) s"

text \<open>\<open>undo\<close> and \<open>redo\<close> spread the stored snapshot (\<open>[...prevElements]\<close>), which
  throws when the index is outside the history.\<close>

definition undo :: "editor \<Rightarrow> js_error + editor" where
  "undo s =
     (if historyIndex s > 0 then
        (case js_index (history s) (historyIndex s - 1) of
           None \<Rightarrow> Inl TypeError
         | Some prevElements \<Rightarrow>
             Inr (s\<lparr>elements := prevElements, historyIndex := historyIndex s - 1\<rparr>))
      else Inr s)"

definition redo :: "editor \<Rightarrow> js_error + editor" where
  "redo s =
     (if historyIndex s < int (length (history s)) - 1 then
        (case js_index (history s) (historyIndex s + 1) of
           None \<Rightarrow> Inl TypeError
         | Some nextElements \<Rightarrow>
             Inr (s\<lparr>elements := nextElements, historyIndex := historyIndex s + 1\<rparr>))
      else Inr s)"

subsection \<open>Delete\<close>

definition source_or_empty :: "DiagramElement \<Rightarrow> string" where
  "source_or_empty e = (case el_source e of None \<Rightarrow> [] | Some t \<Rightarrow> t)"

definition target_or_empty :: "DiagramElement \<Rightarrow> string" where
  "target_or_empty e = (case el_target e of None \<Rightarrow> [] | Some t \<Rightarrow> t)"

definition pruneDanglingEdges :: "DiagramElement list \<Rightarrow> DiagramElement list" where
  "pruneDanglingEdges els =
     (let vertexIds = set (map el_id (filter (\<lambda>e. el_type e = Vertex) els))
      in filter (\<lambda>e. el_type e = Vertex \<or>
                      (source_or_empty e \<in> vertexIds \<and> target_or_empty e \<in> vertexIds)) els)"

definition deleteSelected :: "editor \<Rightarrow> editor" where
  "deleteSelected s =
     (case selected s of
        None \<Rightarrow> s
      | Some i \<Rightarrow>
          (let filtered = filter (\<lambda>el. el_id el \<noteq> i) (elements s);
               cleaned = pruneDanglingEdges filtered
           in push_history cleaned (s\<lparr>elements := cleaned, selectedElement := None\<rparr>)))"

subsection \<open>Copy and paste\<close>

text \<open>\<open>copySelected\<close> puts a copy of the selected element on the clipboard.
  \<open>pasteElement\<close> appends the element of the clipboard under a new id, moved by 20 in both
  directions, selects it and commits; the id is built from the clock and a random number,
  and the model takes it as the argument \<open>newId\<close>.\<close>

definition copySelected :: "editor \<Rightarrow> editor" where
  "copySelected s =
     (case selected s of
        None \<Rightarrow> s
      | Some sel \<Rightarrow>
          (case find (\<lambda>el. el_id el = sel) (elements s) of
             None \<Rightarrow> s
           | Some element \<Rightarrow> s\<lparr>clipboard := Some element\<rparr>))"

definition pasteElement :: "string \<Rightarrow> editor \<Rightarrow> editor" where
  "pasteElement newId s =
     (case clipboard s of
        None \<Rightarrow> s
      | Some c \<Rightarrow>
          (let newElement = c\<lparr>el_id := newId, el_x := el_x c + Num 20, el_y := el_y c + Num 20\<rparr>;
               updated = elements s @ [newElement]
           in push_history updated (s\<lparr>elements := updated, selectedElement := Some newId\<rparr>)))"

subsection \<open>Adding an arrow\<close>

definition getArrowStyle :: "string \<Rightarrow> string" where
  "getArrowStyle arrowType =
     (if arrowType = ''straight'' then ''edgeStyle=straight;endArrow=classic;strokeColor=#333;strokeWidth=2;''
      else if arrowType = ''curved'' then ''edgeStyle=curved;endArrow=classic;strokeColor=#333;strokeWidth=2;''
      else if arrowType = ''dashed'' then ''edgeStyle=straight;strokeDashArray=5,5;endArrow=classic;strokeColor=#333;strokeWidth=2;''
      else if arrowType = ''double'' then ''edgeStyle=straight;strokeWidth=3;endArrow=classic;strokeColor=#333;''
      else if arrowType = ''bidirectional'' then ''edgeStyle=straight;startArrow=classic;endArrow=classic;strokeColor=#333;strokeWidth=2;''
      else ''edgeStyle=straight;endArrow=classic;strokeColor=#333;strokeWidth=2;'')"

definition center_x :: "DiagramElement \<Rightarrow> jsnum" where
  "center_x e = el_x e + el_width e / Num 2"

definition center_y :: "DiagramElement \<Rightarrow> jsnum" where
  "center_y e = el_y e + el_height e / Num 2"

text \<open>The new arrow of \<open>addArrow\<close>. Its id is built from the clock and a random number;
  the model takes it as the argument \<open>newId\<close>.\<close>

definition newArrow :: "string \<Rightarrow> string \<Rightarrow> string \<Rightarrow> string \<Rightarrow> DiagramElement \<Rightarrow> DiagramElement \<Rightarrow> DiagramElement" where
  "newArrow newId arrowStyle sourceId targetId sourceElement targetElement =
     \<lparr> el_id = newId, el_type = Edge,
       el_x = Math_min (center_x sourceElement) (center_x targetElement),
       el_y = Math_min (center_y sourceElement) (center_y targetElement),
       el_width = \<bar>center_x sourceElement - center_x targetElement\<bar>,
       el_height = \<bar>center_y sourceElement - center_y targetElement\<bar>,
       el_value = [], el_style = arrowStyle,
       el_source = Some sourceId, el_target = Some targetId,
       el_points = Some [\<lparr>pt_x = center_x sourceElement, pt_y = center_y sourceElement\<rparr>,
                         \<lparr>pt_x = center_x targetElement, pt_y = center_y targetElement\<rparr>],
       el_rotation = None \<rparr>"

definition addArrow :: "string \<Rightarrow> string \<Rightarrow> string \<Rightarrow> editor \<Rightarrow> editor" where
  "addArrow newId sourceId targetId s =
     (case find (\<lambda>el. el_id el = sourceId) (elements s) of
        None \<Rightarrow> s
      | Some sourceElement \<Rightarrow>
          (case find (\<lambda>el. el_id el = targetId) (elements s) of
             None \<Rightarrow> s
           | Some targetElement \<Rightarrow>
               (let updated = elements s @
                      [newArrow newId (getArrowStyle (selectedArrowType s)) sourceId targetId
                         sourceElement targetElement]
                in push_history updated (s\<lparr>elements := updated\<rparr>))))"

subsection \<open>Resize\<close>

text \<open>The \<open>switch (resizeHandle)\<close> of \<open>handleResizeMove\<close>, which both branches of the
  function contain: the new box \<open>(newX, newY, newWidth, newHeight)\<close>. A handle that is
  none of the eight names leaves the box as it is.\<close>

definition resize_switch :: "string \<Rightarrow> DiagramElement \<Rightarrow> jsnum \<Rightarrow> jsnum \<Rightarrow> jsnum \<times> jsnum \<times> jsnum \<times> jsnum" where
  "resize_switch handle element mouseX mouseY =
     (if handle = ''nw'' then
        (mouseX, mouseY, el_x element + el_width element - mouseX, el_y element + el_height element - mouseY)
      else if handle = ''n'' then
        (el_x element, mouseY, el_width element, el_y element + el_height element - mouseY)
      else if handle = ''ne'' then
        (el_x element, mouseY, mouseX - el_x element, el_y element + el_height element - mouseY)
      else if handle = ''e'' then
        (el_x element, el_y element, mouseX - el_x element, el_height element)
      else if handle = ''se'' then
        (el_x element, el_y element, mouseX - el_x element, mouseY - el_y element)
      else if handle = ''s'' then
        (el_x element, el_y element, el_width element, mouseY - el_y element)
      else if handle = ''sw'' then
        (mouseX, el_y element, el_x element + el_width element - mouseX, mouseY - el_y element)
      else if handle = ''w'' then
        (mouseX, el_y element, el_x element + el_width element - mouseX, el_height element)
      else (el_x element, el_y element, el_width element, el_height element))"

text \<open>The points of an edge, or the two corners of its box when it has none.\<close>

definition points_or_box :: "DiagramElement \<Rightarrow> Point list" where
  "points_or_box element =
     (case el_points element of
        Some ps \<Rightarrow> if length ps > 0 then ps else
          [\<lparr>pt_x = el_x element, pt_y = el_y element\<rparr>,
           \<lparr>pt_x = el_x element + el_width element, pt_y = el_y element + el_height element\<rparr>]
      | None \<Rightarrow>
          [\<lparr>pt_x = el_x element, pt_y = el_y element\<rparr>,
           \<lparr>pt_x = el_x element + el_width element, pt_y = el_y element + el_height element\<rparr>])"

definition scale_point :: "jsnum \<Rightarrow> jsnum \<Rightarrow> jsnum \<Rightarrow> jsnum \<Rightarrow> jsnum \<Rightarrow> jsnum \<Rightarrow> Point \<Rightarrow> Point" where
  "scale_point newCenterX newCenterY centerX centerY scaleX scaleY p =
     \<lparr>pt_x = newCenterX + (pt_x p - centerX) * scaleX,
      pt_y = newCenterY + (pt_y p - centerY) * scaleY\<rparr>"

text \<open>\<open>handleResizeMove\<close>; \<open>mouseX\<close> and \<open>mouseY\<close> are the pointer position in scene
  coordinates, which the function computes from the event, the pan and the zoom.\<close>

definition handleResizeMove :: "jsnum \<Rightarrow> jsnum \<Rightarrow> editor \<Rightarrow> editor" where
  "handleResizeMove mouseX mouseY s =
     (if \<not> isResizing s then s else
      case selected s of
        None \<Rightarrow> s
      | Some sel \<Rightarrow>
      (case find (\<lambda>el. el_id el = sel) (elements s) of
        None \<Rightarrow> s
      | Some element \<Rightarrow>
      (case el_type element of
        Vertex \<Rightarrow>
          (case resize_switch (resizeHandle s) element mouseX mouseY of
             (newX, newY, newWidth, newHeight) \<Rightarrow>
               s\<lparr>elements := map (\<lambda>el. if el_id el = sel
                    then el\<lparr>el_x := newX, el_y := newY,
                            el_width := Math_max (Num 20) newWidth,
                            el_height := Math_max (Num 20) newHeight\<rparr>
                    else el) (elements s)\<rparr>)
      | Edge \<Rightarrow>
          (let points = points_or_box element;
               minX = Math_min_list (map pt_x points);
               minY = Math_min_list (map pt_y points);
               maxX = Math_max_list (map pt_x points);
               maxY = Math_max_list (map pt_y points);
               oldWidth = maxX - minX;
               oldHeight = maxY - minY
           in if oldWidth = Num 0 \<or> oldHeight = Num 0 then s else
              (case resize_switch (resizeHandle s) element mouseX mouseY of
                 (newX, newY, newWidth0, newHeight0) \<Rightarrow>
                   (let newWidth = Math_max (Num 20) newWidth0;
                        newHeight = Math_max (Num 20) newHeight0;
                        scaleX = newWidth / oldWidth;
                        scaleY = newHeight / oldHeight;
                        centerX = (minX + maxX) / Num 2;
                        centerY = (minY + maxY) / Num 2;
                        newCenterX = newX + newWidth / Num 2;
                        newCenterY = newY + newHeight / Num 2;
                        newPoints = map (scale_point newCenterX newCenterY centerX centerY scaleX scaleY) points
                    in s\<lparr>elements := map (\<lambda>el. if el_id el = sel
                         then el\<lparr>el_points := Some newPoints, el_x := newX, el_y := newY,
                                 el_width := newWidth, el_height := newHeight\<rparr>
                         else el) (elements s)\<rparr>))))))"

subsection \<open>Rotate\<close>

definition rotate_point :: "jsnum \<Rightarrow> jsnum \<Rightarrow> jsnum \<Rightarrow> jsnum \<Rightarrow> Point \<Rightarrow> Point" where
  "rotate_point cx cy cosA sinA p =
     \<lparr>pt_x = cx + (pt_x p - cx) * cosA - (pt_y p - cy) * sinA,
      pt_y = cy + (pt_x p - cx) * sinA + (pt_y p - cy) * cosA\<rparr>"

definition normalizedAngle :: "Point \<Rightarrow> jsnum \<Rightarrow> jsnum \<Rightarrow> jsnum" where
  "normalizedAngle c mouseX mouseY =
     (let angle = Math_atan2 (mouseY - pt_y c) (mouseX - pt_x c) * (Num 180 / Num pi)
      in js_rem (js_rem angle (Num 360) + Num 360) (Num 360))"

definition handleRotateMove :: "jsnum \<Rightarrow> jsnum \<Rightarrow> editor \<Rightarrow> editor" where
  "handleRotateMove mouseX mouseY s =
     (if \<not> isRotating s then s else
      case selected s of
        None \<Rightarrow> s
      | Some sel \<Rightarrow>
      (case find (\<lambda>el. el_id el = sel) (elements s) of
        None \<Rightarrow> s
      | Some element \<Rightarrow>
      (let normalized = normalizedAngle (rotationCenter s) mouseX mouseY in
       case el_type element of
        Edge \<Rightarrow>
          (let pts = (case initialRotatePoints s of
                        Some ps \<Rightarrow> ps
                      | None \<Rightarrow> (case el_points element of Some ps \<Rightarrow> ps | None \<Rightarrow> []));
               rad = normalized * Num pi / Num 180;
               cosA = Math_cos rad;
               sinA = Math_sin rad;
               cx = pt_x (rotationCenter s);
               cy = pt_y (rotationCenter s);
               rotated = map (rotate_point cx cy cosA sinA) pts;
               minX = Math_min_list (map pt_x rotated);
               minY = Math_min_list (map pt_y rotated);
               maxX = Math_max_list (map pt_x rotated);
               maxY = Math_max_list (map pt_y rotated)
           in s\<lparr>elements := map (\<lambda>el. if el_id el = sel
                then el\<lparr>el_points := Some rotated, el_x := minX, el_y := minY,
                        el_width := maxX - minX, el_height := maxY - minY\<rparr>
                else el) (elements s)\<rparr>)
      | Vertex \<Rightarrow>
          s\<lparr>elements := map (\<lambda>el. if el_id el = sel
               then el\<lparr>el_rotation := Some normalized\<rparr> else el) (elements s)\<rparr>)))"

text \<open>\<open>startRotate\<close> on an edge: the pivot is the centre of the bounding box of its
  points, and the points are kept for the moves that follow.\<close>

definition startRotate :: "editor \<Rightarrow> editor" where
  "startRotate s =
     (case selected s of
        None \<Rightarrow> s
      | Some sel \<Rightarrow>
      (case find (\<lambda>el. el_id el = sel) (elements s) of
        None \<Rightarrow> s
      | Some element \<Rightarrow>
          (let has_points = (case el_points element of Some ps \<Rightarrow> length ps \<noteq> 0 | None \<Rightarrow> False);
               pxs = map pt_x (case el_points element of Some ps \<Rightarrow> ps | None \<Rightarrow> []);
               pys = map pt_y (case el_points element of Some ps \<Rightarrow> ps | None \<Rightarrow> []);
               centerX = (if el_type element = Edge \<and> has_points
                          then (Math_min_list pxs + Math_max_list pxs) / Num 2
                          else el_x element + el_width element / Num 2);
               centerY = (if el_type element = Edge \<and> has_points
                          then (Math_min_list pys + Math_max_list pys) / Num 2
                          else el_y element + el_height element / Num 2)
           in s\<lparr>isRotating := True,
                rotationCenter := \<lparr>pt_x = centerX, pt_y = centerY\<rparr>,
                initialRotatePoints :=
                  (if el_type element = Edge then Some (points_or_box element) else None)\<rparr>)))"

text \<open>The Euclidean distance of two points with finite coordinates.\<close>

definition pt_dist :: "Point \<Rightarrow> Point \<Rightarrow> real" where
  "pt_dist p q = sqrt ((the_real (pt_x p) - the_real (pt_x q))\<^sup>2 + (the_real (pt_y p) - the_real (pt_y q))\<^sup>2)"

definition pt_finite :: "Point \<Rightarrow> bool" where
  "pt_finite p = (is_finite (pt_x p) \<and> is_finite (pt_y p))"


subsection \<open>Example scenes\<close>

definition mk_vertex :: "string \<Rightarrow> real \<Rightarrow> real \<Rightarrow> real \<Rightarrow> real \<Rightarrow> DiagramElement" where
  "mk_vertex i a b w h =
     \<lparr> el_id = i, el_type = Vertex, el_x = Num a, el_y = Num b, el_width = Num w, el_height = Num h,
       el_value = ''Block'', el_style = ''shape=rectangle;'',
       el_source = None, el_target = None, el_points = None, el_rotation = None \<rparr>"

definition mk_edge :: "string \<Rightarrow> string \<Rightarrow> string \<Rightarrow> Point list \<Rightarrow> DiagramElement" where
  "mk_edge i src tgt pts =
     \<lparr> el_id = i, el_type = Edge, el_x = Num 0, el_y = Num 0, el_width = Num 0, el_height = Num 0,
       el_value = [], el_style = ''endArrow=classic;'',
       el_source = Some src, el_target = Some tgt, el_points = Some pts, el_rotation = None \<rparr>"

text \<open>The component state after a scene has been loaded: one history entry, nothing selected.\<close>

definition loaded :: "DiagramElement list \<Rightarrow> editor" where
  "loaded els =
     \<lparr> elements = els, selectedElement = None, history = [els], historyIndex = 0,
       clipboard = None, isResizing = False, resizeHandle = [], isRotating = False,
       rotationCenter = \<lparr>pt_x = Num 0, pt_y = Num 0\<rparr>, initialRotatePoints = None,
       selectedArrowType = ''straight'' \<rparr>"

text \<open>Scenario A of the specification: two blocks of 120 by 60.\<close>

definition scene_A :: "DiagramElement list" where
  "scene_A = [mk_vertex ''2'' 40 40 120 60, mk_vertex ''3'' 300 40 120 60]"

text \<open>Three blocks and an arrow between the first two.\<close>

definition scene_B :: "DiagramElement list" where
  "scene_B = [mk_vertex ''v1'' 0 0 120 60, mk_vertex ''v2'' 200 0 120 60,
              mk_vertex ''v3'' 400 0 120 60, mk_edge ''e1'' ''v1'' ''v2'' []]"

text \<open>The arrow of \<open>scene_B\<close> is copied, the block at its end is selected and deleted, and
  the clipboard is pasted.\<close>

definition copied_arrow :: editor where
  "copied_arrow = copySelected ((loaded scene_B)\<lparr>selectedElement := Some ''e1''\<rparr>)"

definition block_deleted :: editor where
  "block_deleted = deleteSelected (copied_arrow\<lparr>selectedElement := Some ''v2''\<rparr>)"

definition arrow_pasted :: editor where
  "arrow_pasted = pasteElement ''p1'' block_deleted"

text \<open>A scene in the middle of a resize, and in the middle of a rotation.\<close>

definition resizing :: "string \<Rightarrow> string \<Rightarrow> DiagramElement list \<Rightarrow> editor" where
  "resizing i handle els = (loaded els)\<lparr>selectedElement := Some i, isResizing := True, resizeHandle := handle\<rparr>"

definition rotating :: "string \<Rightarrow> DiagramElement list \<Rightarrow> editor" where
  "rotating i els = startRotate ((loaded els)\<lparr>selectedElement := Some i\<rparr>)"

text \<open>A block whose \<open>x\<close> is \<open>NaN\<close>, as \<open>parseFloat\<close> gives it for \<open>x="abc"\<close>.\<close>

definition nan_vertex :: DiagramElement where
  "nan_vertex = (mk_vertex ''2'' 40 40 120 60)\<lparr>el_x := NaN\<rparr>"

text \<open>An arrow with a bend, and a vertical arrow, whose box has no width.\<close>

definition bent_edge :: DiagramElement where
  "bent_edge = (mk_edge ''e1'' [] []
      [\<lparr>pt_x = Num 0, pt_y = Num 0\<rparr>, \<lparr>pt_x = Num 100, pt_y = Num 0\<rparr>, \<lparr>pt_x = Num 100, pt_y = Num 50\<rparr>])
      \<lparr>el_width := Num 100, el_height := Num 50\<rparr>"




text \<open>The invariant of the specification: every endpoint of an edge is empty or the id
  of a vertex of the scene.\<close>

definition vertex_ids :: "DiagramElement list \<Rightarrow> string set" where
  "vertex_ids els = set (map el_id (filter (\<lambda>e. el_type e = Vertex) els))"

definition dangling_edge_free :: "DiagramElement list \<Rightarrow> bool" where
  "dangling_edge_free els =
     (\<forall>e \<in> set els. el_type e = Edge \<longrightarrow>
        (source_or_empty e = [] \<or> source_or_empty e \<in> vertex_ids els) \<and>
        (target_or_empty e = [] \<or> target_or_empty e \<in> vertex_ids els))"

text \<open>A history of three snapshots after one undo and an edit that has not been
  committed yet.\<close>

definition hist_s :: editor where
  "hist_s = (loaded scene_A)\<lparr> elements := [mk_vertex ''2'' 40 40 120 60, mk_vertex ''9'' 0 0 120 60],
       history := [[], [mk_vertex ''2'' 40 40 120 60], scene_A], historyIndex := 1 \<rparr>"

section \<open>The XML document\<close>

text \<open>
  The editor reads and writes the diagram through the DOM: \<open>DOMParser\<close> turns the text
  into a tree of elements, and \<open>XMLSerializer\<close> turns the tree back into text. The model
  starts from the tree. An element has a tag, attributes and child elements; text nodes
  play no part in the code and are left out.

  The value of an attribute is a string. \<open>elementsToXml\<close> writes numbers with
  \<open>String(n)\<close> and \<open>parseXmlToElements\<close> reads them back with \<open>parseFloat\<close>. The
  digits of \<open>String(n)\<close> are not modelled: the text is kept as \<open>NumStr n\<close>, and
  \<open>parseFloat\<close> gives \<open>n\<close> back, as ECMAScript guarantees for every number. Such a text
  is never empty. It is written under the names \<open>x\<close>, \<open>y\<close>, \<open>width\<close> and \<open>height\<close>
  only, and these names are read with \<open>parseFloat\<close> only.

  \<open>elementsToXml\<close> holds a reference to one node of the tree in the variable \<open>root\<close>,
  and appends the new cells to it, wherever the node then is, also when it has been
  detached from the document. The flag \<open>root_ref\<close> of an element says that it is the
  node the variable refers to.
\<close>

datatype jstext = Str string | NumStr jsnum

datatype xml = Elem (tag: string) (attrs: "(string \<times> jstext) list") (kids: "xml list") (root_ref: bool)

type_synonym document = "xml list"

text \<open>The elements of a tree in document order, the node itself first.\<close>

fun nodes :: "xml \<Rightarrow> xml list" where
  "nodes (Elem t a ks m) = Elem t a ks m # concat (map nodes ks)"

definition descendants :: "xml \<Rightarrow> xml list" where
  "descendants n = concat (map nodes (kids n))"

definition doc_nodes :: "document \<Rightarrow> xml list" where
  "doc_nodes d = concat (map nodes d)"

text \<open>\<open>node.getElementsByTagName(t)\<close> and \<open>doc.getElementsByTagName(t)\<close>.\<close>

definition getElementsByTagName :: "xml \<Rightarrow> string \<Rightarrow> xml list" where
  "getElementsByTagName n t = filter (\<lambda>m. tag m = t) (descendants n)"

definition doc_getElementsByTagName :: "document \<Rightarrow> string \<Rightarrow> xml list" where
  "doc_getElementsByTagName d t = filter (\<lambda>m. tag m = t) (doc_nodes d)"

text \<open>\<open>xs[0]\<close>.\<close>

definition first :: "'a list \<Rightarrow> 'a option" where
  "first xs = (case xs of [] \<Rightarrow> None | x # _ \<Rightarrow> Some x)"

definition getAttribute :: "xml \<Rightarrow> string \<Rightarrow> jstext option" where
  "getAttribute n k = map_of (attrs n) k"

text \<open>A string is truthy when it is not empty.\<close>

fun truthy :: "jstext \<Rightarrow> bool" where
  "truthy (Str s) = (s \<noteq> [])"
| "truthy (NumStr v) = True"

text \<open>\<open>n.getAttribute(k) || ""\<close>, for the attributes that are read as text: \<open>id\<close>,
  \<open>value\<close>, \<open>style\<close>, \<open>source\<close> and \<open>target\<close>. The text of a number is never under one
  of these names.\<close>

definition attr_or_empty :: "xml \<Rightarrow> string \<Rightarrow> string" where
  "attr_or_empty n k = (case getAttribute n k of Some (Str s) \<Rightarrow> s | _ \<Rightarrow> [])"

text \<open>\<open>n.setAttribute(k, v)\<close>: the value is replaced in place, a new attribute comes last.\<close>

fun set_attr :: "string \<Rightarrow> jstext \<Rightarrow> (string \<times> jstext) list \<Rightarrow> (string \<times> jstext) list" where
  "set_attr k v [] = [(k, v)]"
| "set_attr k v (p # ps) = (if fst p = k then (k, v) # ps else p # set_attr k v ps)"

fun setAttribute :: "string \<Rightarrow> jstext \<Rightarrow> xml \<Rightarrow> xml" where
  "setAttribute k v (Elem t a ks m) = Elem t (set_attr k v a) ks m"

fun appendChild :: "xml \<Rightarrow> xml \<Rightarrow> xml" where
  "appendChild c (Elem t a ks m) = Elem t a (ks @ [c]) m"

text \<open>\<open>doc.createElement(t)\<close>.\<close>

definition createElement :: "string \<Rightarrow> xml" where
  "createElement t = Elem t [] [] False"

text \<open>The first element in document order that satisfies \<open>p\<close> is replaced by its image
  under \<open>f\<close>: a change made through a reference that \<open>querySelector\<close> or
  \<open>getElementsByTagName(..)[0]\<close> has returned. \<open>None\<close> when no element satisfies \<open>p\<close>.\<close>

fun update_first_node :: "(xml \<Rightarrow> bool) \<Rightarrow> (xml \<Rightarrow> xml) \<Rightarrow> xml \<Rightarrow> xml option"
  and update_first_list :: "(xml \<Rightarrow> bool) \<Rightarrow> (xml \<Rightarrow> xml) \<Rightarrow> xml list \<Rightarrow> xml list option" where
  "update_first_node p f (Elem t a ks m) =
     (if p (Elem t a ks m) then Some (f (Elem t a ks m))
      else (case update_first_list p f ks of None \<Rightarrow> None | Some ks' \<Rightarrow> Some (Elem t a ks' m)))"
| "update_first_list p f [] = None"
| "update_first_list p f (n # ns) =
     (case update_first_node p f n of
        Some n' \<Rightarrow> Some (n' # ns)
      | None \<Rightarrow> (case update_first_list p f ns of None \<Rightarrow> None | Some ns' \<Rightarrow> Some (n # ns')))"

definition update_first :: "(xml \<Rightarrow> bool) \<Rightarrow> (xml \<Rightarrow> xml) \<Rightarrow> xml list \<Rightarrow> xml list" where
  "update_first p f ns = (case update_first_list p f ns of None \<Rightarrow> ns | Some ns' \<Rightarrow> ns')"

text \<open>Every element below the node that satisfies \<open>p\<close> is taken out of its parent, with
  all that it contains.\<close>

fun remove_below :: "(xml \<Rightarrow> bool) \<Rightarrow> xml \<Rightarrow> xml" where
  "remove_below p (Elem t a ks m) = Elem t a (map (remove_below p) (filter (\<lambda>k. \<not> p k) ks)) m"

definition doc_remove :: "(xml \<Rightarrow> bool) \<Rightarrow> document \<Rightarrow> document" where
  "doc_remove p d = map (remove_below p) (filter (\<lambda>k. \<not> p k) d)"

fun clear_ref :: "xml \<Rightarrow> xml" where
  "clear_ref (Elem t a ks m) = Elem t a (map clear_ref ks) False"

fun set_ref :: "xml \<Rightarrow> xml" where
  "set_ref (Elem t a ks m) = Elem t a ks True"

section \<open>Decoding\<close>

subsection \<open>\<open>parseFloat\<close>\<close>

text \<open>\<open>parseFloat\<close> skips leading white space and reads the longest prefix of the rest
  that is a decimal literal: an optional sign, then \<open>Infinity\<close> or digits with an optional
  fraction and an optional exponent. It gives \<open>NaN\<close> when there is no such prefix. The
  strings of the model are made of ASCII characters, and so is the white space.\<close>

definition is_space :: "char \<Rightarrow> bool" where
  "is_space c = (c \<in> set [CHR '' '', CHR 0x09, CHR 0x0A, CHR 0x0B, CHR 0x0C, CHR 0x0D])"

definition is_digit :: "char \<Rightarrow> bool" where
  "is_digit c = (c \<in> set ''0123456789'')"

definition digit_val :: "char \<Rightarrow> nat" where
  "digit_val c = of_char c - 48"

definition digits_val :: "string \<Rightarrow> nat" where
  "digits_val ds = foldl (\<lambda>a c. 10 * a + digit_val c) 0 ds"

text \<open>The exponent part of a decimal literal at the head of the string, if there is one:
  \<open>e\<close> or \<open>E\<close>, an optional sign and at least one digit.\<close>

definition exponent_part :: "string \<Rightarrow> int" where
  "exponent_part s =
     (case s of
        [] \<Rightarrow> 0
      | c # r \<Rightarrow>
          if c = CHR ''e'' \<or> c = CHR ''E'' then
            (case r of
               [] \<Rightarrow> 0
             | d # r' \<Rightarrow>
                 if d = CHR ''-'' then
                   (if takeWhile is_digit r' = [] then 0 else - int (digits_val (takeWhile is_digit r')))
                 else if d = CHR ''+'' then int (digits_val (takeWhile is_digit r'))
                 else int (digits_val (takeWhile is_digit r)))
          else 0)"

text \<open>The value of the longest prefix of the string that is an unsigned decimal literal;
  \<open>None\<close> when no prefix is one.\<close>

definition unsigned_literal :: "string \<Rightarrow> jsnum option" where
  "unsigned_literal s =
     (if take 8 s = ''Infinity'' then Some PosInf else
      let ip = takeWhile is_digit s;
          r1 = dropWhile is_digit s;
          fp = (case r1 of [] \<Rightarrow> [] | c # r \<Rightarrow> if c = CHR ''.'' then takeWhile is_digit r else []);
          r2 = (case r1 of [] \<Rightarrow> [] | c # r \<Rightarrow> if c = CHR ''.'' then dropWhile is_digit r else r1)
      in if ip = [] \<and> fp = [] then None
         else Some (Num ((real (digits_val ip) + real (digits_val fp) / 10 ^ length fp)
                         * 10 powi exponent_part r2)))"

definition parse_float_string :: "string \<Rightarrow> jsnum" where
  "parse_float_string s =
     (case dropWhile is_space s of
        [] \<Rightarrow> NaN
      | c # r \<Rightarrow>
          if c = CHR ''-'' then (case unsigned_literal r of None \<Rightarrow> NaN | Some v \<Rightarrow> - v)
          else if c = CHR ''+'' then (case unsigned_literal r of None \<Rightarrow> NaN | Some v \<Rightarrow> v)
          else (case unsigned_literal (c # r) of None \<Rightarrow> NaN | Some v \<Rightarrow> v))"

fun parseFloat :: "jstext \<Rightarrow> jsnum" where
  "parseFloat (Str s) = parse_float_string s"
| "parseFloat (NumStr v) = v"

text \<open>\<open>parseFloat(n.getAttribute(k) || d)\<close>.\<close>

definition num_attr :: "xml \<Rightarrow> string \<Rightarrow> string \<Rightarrow> jsnum" where
  "num_attr n k d =
     parseFloat (case getAttribute n k of None \<Rightarrow> Str d | Some v \<Rightarrow> if truthy v then v else Str d)"

subsection \<open>\<open>parseXmlToElements\<close>\<close>

definition point_of :: "xml \<Rightarrow> Point" where
  "point_of p = \<lparr>pt_x = num_attr p ''x'' ''0'', pt_y = num_attr p ''y'' ''0''\<rparr>"

text \<open>\<open>cell.querySelector('mxPoint[as="..."]')\<close>.\<close>

definition querySelector_point :: "xml \<Rightarrow> string \<Rightarrow> xml option" where
  "querySelector_point cell role =
     find (\<lambda>n. tag n = ''mxPoint'' \<and> getAttribute n ''as'' = Some (Str role)) (descendants cell)"

text \<open>The body of the loop over the cells: the element that a cell gives, if any.\<close>

definition parse_cell :: "xml \<Rightarrow> DiagramElement option" where
  "parse_cell cell =
     (let id = attr_or_empty cell ''id'' in
      if id = ''0'' \<or> id = ''1'' then None else
      let val = attr_or_empty cell ''value'';
          style = attr_or_empty cell ''style'';
          isEdge = (getAttribute cell ''edge'' = Some (Str ''1''));
          geometry = first (getElementsByTagName cell ''mxGeometry'')
      in if isEdge then
           (let source = attr_or_empty cell ''source'';
                target = attr_or_empty cell ''target'';
                points = (case first (getElementsByTagName cell ''Array'') of
                            None \<Rightarrow> []
                          | Some array \<Rightarrow> map point_of (getElementsByTagName array ''mxPoint''));
                box = (case (querySelector_point cell ''sourcePoint'', querySelector_point cell ''targetPoint'') of
                         (Some sourcePoint, Some targetPoint) \<Rightarrow>
                           (let sx = num_attr sourcePoint ''x'' ''0'';
                                sy = num_attr sourcePoint ''y'' ''0'';
                                tx = num_attr targetPoint ''x'' ''0'';
                                ty = num_attr targetPoint ''y'' ''0''
                            in (Math_min sx tx, Math_min sy ty, \<bar>tx - sx\<bar>, \<bar>ty - sy\<bar>))
                       | _ \<Rightarrow> (Num 0, Num 0, Num 0, Num 0))
            in case box of (x, y, width, height) \<Rightarrow>
               Some \<lparr> el_id = id, el_type = Edge, el_x = x, el_y = y, el_width = width, el_height = height,
                      el_value = val, el_style = style,
                      el_source = Some source, el_target = Some target, el_points = Some points,
                      el_rotation = None \<rparr>)
         else (case geometry of
                 None \<Rightarrow> None
               | Some g \<Rightarrow>
                   Some \<lparr> el_id = id, el_type = Vertex,
                          el_x = num_attr g ''x'' ''0'', el_y = num_attr g ''y'' ''0'',
                          el_width = num_attr g ''width'' ''120'', el_height = num_attr g ''height'' ''60'',
                          el_value = val, el_style = style,
                          el_source = None, el_target = None, el_points = None,
                          el_rotation = None \<rparr>))"

text \<open>\<open>parseXmlToElements\<close>. The argument is \<open>None\<close> for the empty string and the parsed
  document otherwise.\<close>

definition parseXmlToElements :: "document option \<Rightarrow> DiagramElement list" where
  "parseXmlToElements xmlString =
     (case xmlString of
        None \<Rightarrow> []
      | Some doc \<Rightarrow> List.map_filter parse_cell (doc_getElementsByTagName doc ''mxCell''))"

section \<open>Encoding\<close>

text \<open>The ids that \<open>elementsToXml\<close> keeps, and the cells that it removes: those with a
  non-empty id that is not kept.\<close>

definition keepIds :: "DiagramElement list \<Rightarrow> string set" where
  "keepIds els = insert ''0'' (insert ''1'' (set (map el_id els)))"

definition stale :: "string set \<Rightarrow> xml \<Rightarrow> bool" where
  "stale keep c = (tag c = ''mxCell'' \<and> attr_or_empty c ''id'' \<noteq> [] \<and> attr_or_empty c ''id'' \<notin> keep)"

text \<open>\<open>doc.querySelector(`mxCell[id="${i}"]`)\<close> finds the first \<open>mxCell\<close> whose attribute
  \<open>id\<close> is the string \<open>i\<close>. This is what the selector means as long as \<open>i\<close> contains no
  character that ends or escapes a string of a selector.\<close>

definition is_cell :: "string \<Rightarrow> xml \<Rightarrow> bool" where
  "is_cell i n = (tag n = ''mxCell'' \<and> getAttribute n ''id'' = Some (Str i))"

definition css_plain :: "string \<Rightarrow> bool" where
  "css_plain i = (\<forall>c \<in> set i. c \<notin> set [CHR 0x22, CHR 0x5C, CHR 0x0A, CHR 0x0D, CHR 0x0C])"

definition mxPoint :: "Point \<Rightarrow> string option \<Rightarrow> xml" where
  "mxPoint p role =
     (let n = setAttribute ''y'' (NumStr (pt_y p)) (setAttribute ''x'' (NumStr (pt_x p)) (createElement ''mxPoint''))
      in case role of None \<Rightarrow> n | Some r \<Rightarrow> setAttribute ''as'' (Str r) n)"

text \<open>The source point, the target point and, for more than two points, the array of the
  points in between are appended to the geometry. The list of points is not empty.\<close>

definition append_points :: "Point list \<Rightarrow> xml \<Rightarrow> xml" where
  "append_points points geom =
     (let g1 = appendChild (mxPoint (hd points) (Some ''sourcePoint'')) geom;
          g2 = appendChild (mxPoint (last points) (Some ''targetPoint'')) g1
      in if length points > 2
         then appendChild (Elem ''Array'' [(''as'', Str ''points'')]
                             (map (\<lambda>p. mxPoint p None) (butlast (tl points))) False) g2
         else g2)"

definition set_if_truthy :: "string \<Rightarrow> string \<Rightarrow> xml \<Rightarrow> xml" where
  "set_if_truthy k v n = (if v \<noteq> [] then setAttribute k (Str v) n else n)"

definition vertex_geometry :: "DiagramElement \<Rightarrow> xml \<Rightarrow> xml" where
  "vertex_geometry el geom =
     setAttribute ''as'' (Str ''geometry'')
       (setAttribute ''height'' (NumStr (el_height el))
         (setAttribute ''width'' (NumStr (el_width el))
           (setAttribute ''y'' (NumStr (el_y el))
             (setAttribute ''x'' (NumStr (el_x el)) geom))))"

text \<open>The cell that is created for an element with no cell in the document.\<close>

definition new_cell :: "DiagramElement \<Rightarrow> xml" where
  "new_cell el =
     (let cell = setAttribute ''parent'' (Str ''1'') (setAttribute ''id'' (Str (el_id el)) (createElement ''mxCell''))
      in case el_type el of
           Vertex \<Rightarrow>
             appendChild (vertex_geometry el (createElement ''mxGeometry''))
               (setAttribute ''value'' (Str (el_value el))
                 (set_if_truthy ''style'' (el_style el)
                   (setAttribute ''vertex'' (Str ''1'') cell)))
         | Edge \<Rightarrow>
             appendChild
               (append_points (points_or_box el)
                 (setAttribute ''as'' (Str ''geometry'')
                   (setAttribute ''relative'' (Str ''1'') (createElement ''mxGeometry''))))
               (set_if_truthy ''target'' (target_or_empty el)
                 (set_if_truthy ''source'' (source_or_empty el)
                   (set_if_truthy ''style'' (el_style el)
                     (setAttribute ''edge'' (Str ''1'') cell)))))"

text \<open>The geometry of a cell is its first \<open>mxGeometry\<close> in document order, which is changed
  where it is; a cell without one gets a new geometry as its last child.\<close>

definition with_geometry :: "(xml \<Rightarrow> xml) \<Rightarrow> xml \<Rightarrow> xml" where
  "with_geometry f cell =
     (if getElementsByTagName cell ''mxGeometry'' \<noteq> []
      then Elem (tag cell) (attrs cell) (update_first (\<lambda>n. tag n = ''mxGeometry'') f (kids cell)) (root_ref cell)
      else appendChild (f (createElement ''mxGeometry'')) cell)"

definition edge_geometry :: "DiagramElement \<Rightarrow> xml \<Rightarrow> xml" where
  "edge_geometry el geom =
     append_points (points_or_box el)
       (remove_below (\<lambda>n. tag n = ''mxPoint'' \<or> tag n = ''Array'')
         (setAttribute ''as'' (Str ''geometry'') (setAttribute ''relative'' (Str ''1'') geom)))"

text \<open>The update of the cell of an element that has one.\<close>

definition update_cell :: "DiagramElement \<Rightarrow> xml \<Rightarrow> xml" where
  "update_cell el cell =
     (case el_type el of
        Vertex \<Rightarrow>
          set_if_truthy ''style'' (el_style el)
            (setAttribute ''value'' (Str (el_value el))
              (with_geometry (vertex_geometry el) cell))
      | Edge \<Rightarrow>
          set_if_truthy ''target'' (target_or_empty el)
            (set_if_truthy ''source'' (source_or_empty el)
              (set_if_truthy ''style'' (el_style el)
                (with_geometry (edge_geometry el) cell))))"

text \<open>The loop over the elements. \<open>root_defined\<close> says whether the variable \<open>root\<close>
  refers to a node at all; when it is \<open>undefined\<close>, the first element without a cell makes
  \<open>root.appendChild\<close> throw. A new cell that is appended to a detached \<open>root\<close> does not
  show in the document.\<close>

fun encode_elements :: "bool \<Rightarrow> DiagramElement list \<Rightarrow> document \<Rightarrow> js_error + document" where
  "encode_elements root_defined [] doc = Inr doc"
| "encode_elements root_defined (el # els) doc =
     (case find (is_cell (el_id el)) (doc_nodes doc) of
        None \<Rightarrow>
          if root_defined
          then encode_elements root_defined els (update_first root_ref (appendChild (new_cell el)) doc)
          else Inl TypeError
      | Some c \<Rightarrow>
          encode_elements root_defined els (update_first (is_cell (el_id el)) (update_cell el) doc))"

text \<open>The document before the loop: \<open>root\<close> refers to the first \<open>root\<close> element, or else to
  the first \<open>mxGraphModel\<close>, and the stale cells are removed.\<close>

definition mark_root :: "document \<Rightarrow> document" where
  "mark_root d =
     (let doc = map clear_ref d
      in if doc_getElementsByTagName doc ''root'' \<noteq> []
         then update_first (\<lambda>n. tag n = ''root'') set_ref doc
         else update_first (\<lambda>n. tag n = ''mxGraphModel'') set_ref doc)"

definition prepare :: "DiagramElement list \<Rightarrow> document \<Rightarrow> document" where
  "prepare els d = doc_remove (stale (keepIds els)) (mark_root d)"

definition has_root :: "document \<Rightarrow> bool" where
  "has_root d = (doc_getElementsByTagName d ''root'' \<noteq> [] \<or> doc_getElementsByTagName d ''mxGraphModel'' \<noteq> [])"

text \<open>\<open>elementsToXml\<close>, with the property \<open>xml\<close> of the component as its first argument:
  \<open>None\<close> for the empty string, the parsed document otherwise. An exception in the body
  makes the function return \<open>xml\<close> as it was.\<close>

definition elementsToXml :: "document option \<Rightarrow> DiagramElement list \<Rightarrow> document option" where
  "elementsToXml xml els =
     (case xml of
        None \<Rightarrow> None
      | Some d \<Rightarrow>
          (case encode_elements (has_root d) els (prepare els d) of
             Inl err \<Rightarrow> xml
           | Inr doc \<Rightarrow> Some (map clear_ref doc)))"

subsection \<open>The other variant of the component\<close>

text \<open>The repository holds a second \<open>InteractiveDiagramEditor\<close>, in
  \<open>src/components/InteractiveDiagramEditor.tsx\<close>. Its \<open>elementsToXml\<close> is the one above
  without the loop that removes cells, and its \<open>deleteSelected\<close> filters the selected
  element out and prunes nothing; the \<open>saveToHistory\<close> that it calls commits the elements
  of the render in which the handler was created, the ones before the deletion.\<close>

definition elementsToXml_unpruned :: "document option \<Rightarrow> DiagramElement list \<Rightarrow> document option" where
  "elementsToXml_unpruned xml els =
     (case xml of
        None \<Rightarrow> None
      | Some d \<Rightarrow>
          (case encode_elements (has_root d) els (mark_root d) of
             Inl err \<Rightarrow> xml
           | Inr doc \<Rightarrow> Some (map clear_ref doc)))"

definition deleteSelected_unpruned :: "editor \<Rightarrow> editor" where
  "deleteSelected_unpruned s =
     (case selected s of
        None \<Rightarrow> s
      | Some i \<Rightarrow>
          push_history (elements s)
            (s\<lparr>elements := filter (\<lambda>el. el_id el \<noteq> i) (elements s), selectedElement := None\<rparr>))"

subsection \<open>Example documents\<close>

definition cell_node :: "string \<Rightarrow> (string \<times> string) list \<Rightarrow> xml list \<Rightarrow> xml" where
  "cell_node i as ks = Elem ''mxCell'' ((''id'', Str i) # map (\<lambda>(k, v). (k, Str v)) as) ks False"

definition geometry_node :: "(string \<times> string) list \<Rightarrow> xml list \<Rightarrow> xml" where
  "geometry_node as ks = Elem ''mxGeometry'' (map (\<lambda>(k, v). (k, Str v)) as @ [(''as'', Str ''geometry'')]) ks False"

text \<open>A document with the root cell \<open>0\<close>, the layer cell \<open>1\<close> and the given cells.\<close>

definition graph_doc :: "xml list \<Rightarrow> document" where
  "graph_doc cells =
     [Elem ''mxGraphModel'' []
        [Elem ''root'' [] (cell_node ''0'' [] [] # cell_node ''1'' [(''parent'', ''0'')] [] # cells) False] False]"

definition vertex_cell :: "string \<Rightarrow> string \<Rightarrow> string \<Rightarrow> string \<Rightarrow> string \<Rightarrow> xml" where
  "vertex_cell i a b w h =
     cell_node i [(''value'', ''Block''), (''style'', ''shape=rectangle;''), (''vertex'', ''1''), (''parent'', ''1'')]
       [geometry_node [(''x'', a), (''y'', b), (''width'', w), (''height'', h)] []]"

text \<open>The document of scenario A.\<close>

definition doc_A :: document where
  "doc_A = graph_doc [vertex_cell ''2'' ''40'' ''40'' ''120'' ''60'', vertex_cell ''3'' ''300'' ''40'' ''120'' ''60'']"

section \<open>Properties of documents\<close>

text \<open>No element of the tree is a cell with a non-empty id outside \<open>K\<close>.\<close>

definition no_stale :: "string set \<Rightarrow> xml \<Rightarrow> bool" where
  "no_stale K n = (\<forall>m \<in> set (nodes n). \<not> stale K m)"


text \<open>A document without a \<open>root\<close> and without an \<open>mxGraphModel\<close> element.\<close>

definition bare_doc :: document where
  "bare_doc = [Elem ''diagram'' [] [vertex_cell ''2'' ''40'' ''40'' ''120'' ''60''] False]"







section \<open>Properties\<close>

subsection \<open>Arithmetic on finite numbers\<close>

lemma is_finite_Num: "is_finite v \<Longrightarrow> \<exists>r. v = Num r"
  by (cases v) simp_all

lemma minus_Num [simp]: "Num a - Num b = Num (a - b)"
  by (simp add: minus_jsnum_def)

lemma Math_max_Num [simp]: "Math_max (Num a) (Num b) = Num (max a b)"
  by (simp add: Math_max_def max_def)

lemma Math_min_Num [simp]: "Math_min (Num a) (Num b) = Num (min a b)"
  by (simp add: Math_min_def min_def)

subsection \<open>History\<close>

lemma slice0_in_range: "0 \<le> c \<Longrightarrow> c < int (length xs) \<Longrightarrow> slice0 xs (c + 1) = take (nat c + 1) xs"
  by (simp add: slice0_def nat_add_distrib)

lemma elements_push_history: "elements (push_history snap s) = elements s"
  by (simp add: push_history_def Let_def)

text \<open>
  Claim C4. Committing a snapshot with the cursor at position \<open>c\<close> keeps the entries
  \<open>0..c\<close> of the history, appends the snapshot and moves the cursor to the new last index,
  one past \<open>c\<close>. Whatever could be redone before is gone, and a redo right after the commit
  changes nothing.
\<close>

theorem commit_truncates_history:
  assumes "0 \<le> historyIndex s" and "historyIndex s < int (length (history s))"
  shows "history (saveToHistory s) = take (nat (historyIndex s) + 1) (history s) @ [elements s]
       \<and> historyIndex (saveToHistory s) = int (length (history (saveToHistory s))) - 1
       \<and> historyIndex (saveToHistory s) = historyIndex s + 1
       \<and> redo (saveToHistory s) = Inr (saveToHistory s)"
  using assms
  by (auto simp add: saveToHistory_def push_history_def Let_def slice0_in_range redo_def min_def)

text \<open>Three snapshots, one undo, then a commit: the third snapshot is replaced and redo
  does nothing.\<close>

theorem commit_truncates_history_witness:
  "0 \<le> historyIndex hist_s \<and> historyIndex hist_s < int (length (history hist_s))
   \<and> undo ((loaded scene_A)\<lparr>history := [[], [mk_vertex ''2'' 40 40 120 60], scene_A], historyIndex := 2\<rparr>)
       = Inr (hist_s\<lparr>elements := [mk_vertex ''2'' 40 40 120 60]\<rparr>)
   \<and> history (saveToHistory hist_s)
       = [[], [mk_vertex ''2'' 40 40 120 60], [mk_vertex ''2'' 40 40 120 60, mk_vertex ''9'' 0 0 120 60]]
   \<and> historyIndex (saveToHistory hist_s) = 2
   \<and> redo (saveToHistory hist_s) = Inr (saveToHistory hist_s)"
  using commit_truncates_history [of hist_s]
  by (simp add: hist_s_def loaded_def undo_def js_index_def)

subsection \<open>Delete\<close>

lemma prune_vertex_ids: "vertex_ids (pruneDanglingEdges els) = vertex_ids els"
  by (auto simp add: vertex_ids_def pruneDanglingEdges_def Let_def)

lemma prune_dangling_edge_free: "dangling_edge_free (pruneDanglingEdges els)"
  unfolding dangling_edge_free_def prune_vertex_ids
  by (auto simp add: pruneDanglingEdges_def vertex_ids_def Let_def)

text \<open>
  Claim C3, as amended. Right after the \<open>deleteSelected\<close> that calls
  \<open>pruneDanglingEdges\<close> has removed the selected element, the element is gone and every
  edge that remains has a source and a target that are each empty or the id of a vertex of
  the scene.
\<close>

theorem delete_leaves_no_dangling_edge:
  "selected s = Some i \<Longrightarrow> dangling_edge_free (elements (deleteSelected s))
     \<and> i \<notin> set (map el_id (elements (deleteSelected s)))"
proof -
  assume sel: "selected s = Some i"
  have eq: "elements (deleteSelected s) = pruneDanglingEdges (filter (\<lambda>el. el_id el \<noteq> i) (elements s))"
    using sel by (simp add: deleteSelected_def Let_def elements_push_history)
  have "i \<notin> set (map el_id (pruneDanglingEdges (filter (\<lambda>el. el_id el \<noteq> i) (elements s))))"
    by (auto simp add: pruneDanglingEdges_def Let_def)
  then show ?thesis
    unfolding eq using prune_dangling_edge_free by blast
qed

text \<open>Scenario B: deleting a block removes the arrow attached to it.\<close>

theorem delete_leaves_no_dangling_edge_witness:
  "selected ((loaded scene_B)\<lparr>selectedElement := Some ''v2''\<rparr>) = Some ''v2''
   \<and> elements (deleteSelected ((loaded scene_B)\<lparr>selectedElement := Some ''v2''\<rparr>))
       = [mk_vertex ''v1'' 0 0 120 60, mk_vertex ''v3'' 400 0 120 60]
   \<and> dangling_edge_free (elements (deleteSelected ((loaded scene_B)\<lparr>selectedElement := Some ''v2''\<rparr>)))"
proof -
  have h: "selected ((loaded scene_B)\<lparr>selectedElement := Some ''v2''\<rparr>) = Some ''v2''"
    by (simp add: selected_def)
  have c: "elements (deleteSelected ((loaded scene_B)\<lparr>selectedElement := Some ''v2''\<rparr>))
       = [mk_vertex ''v1'' 0 0 120 60, mk_vertex ''v3'' 400 0 120 60]"
    by code_simp
  from delete_leaves_no_dangling_edge [OF h] h c show ?thesis by simp
qed

text \<open>A delete followed by a paste: the arrow from \<open>v1\<close> to \<open>v2\<close> is copied while both
  blocks exist, the block \<open>v2\<close> is deleted, which prunes the arrow, and the clipboard is
  pasted. The pasted arrow has the endpoints of the copy, and its target is no vertex of the
  scene.\<close>

theorem dangling_after_delete_then_paste_counterexample:
  "dangling_edge_free scene_B
   \<and> clipboard copied_arrow = Some (mk_edge ''e1'' ''v1'' ''v2'' [])
   \<and> selected (copied_arrow\<lparr>selectedElement := Some ''v2''\<rparr>) = Some ''v2''
   \<and> elements block_deleted = [mk_vertex ''v1'' 0 0 120 60, mk_vertex ''v3'' 400 0 120 60]
   \<and> elements arrow_pasted
        = [mk_vertex ''v1'' 0 0 120 60, mk_vertex ''v3'' 400 0 120 60,
           (mk_edge ''p1'' ''v1'' ''v2'' [])\<lparr>el_x := Num 20, el_y := Num 20\<rparr>]
   \<and> ''v2'' \<notin> vertex_ids (elements arrow_pasted)
   \<and> \<not> dangling_edge_free (elements arrow_pasted)"
  by code_simp

text \<open>The other variant of \<open>deleteSelected\<close> leaves the arrow of scenario B in the scene
  when the block at its end is deleted.\<close>

lemma unpruned_delete_leaves_dangling_edge:
  "map el_id (elements (deleteSelected_unpruned ((loaded scene_B)\<lparr>selectedElement := Some ''v2''\<rparr>)))
     = [''v1'', ''v3'', ''e1'']
   \<and> \<not> dangling_edge_free (elements (deleteSelected_unpruned ((loaded scene_B)\<lparr>selectedElement := Some ''v2''\<rparr>)))"
  by code_simp

text \<open>An arrow that is connected to nothing is removed by the deletion of any block.\<close>

lemma delete_drops_unconnected_edge:
  "elements (deleteSelected ((loaded [mk_vertex ''v1'' 0 0 120 60, mk_vertex ''v2'' 200 0 120 60,
        mk_edge ''free'' [] [] [\<lparr>pt_x = Num 0, pt_y = Num 0\<rparr>, \<lparr>pt_x = Num 100, pt_y = Num 50\<rparr>]])
        \<lparr>selectedElement := Some ''v2''\<rparr>))
   = [mk_vertex ''v1'' 0 0 120 60]"
  by code_simp

subsection \<open>Resize of a vertex\<close>

lemma resize_switch_Num:
  assumes "el_x v = Num a" "el_y v = Num b" "el_width v = Num w" "el_height v = Num h"
  shows "\<exists>a' b' w' h'. resize_switch hdl v (Num mx) (Num my) = (Num a', Num b', Num w', Num h')"
  using assms by (simp add: resize_switch_def)

lemma handleResizeMove_vertex:
  assumes "isResizing s" and "selected s = Some i"
    and "find (\<lambda>el. el_id el = i) (elements s) = Some v" and "el_type v = Vertex"
    and "resize_switch (resizeHandle s) v mouseX mouseY = (newX, newY, newWidth, newHeight)"
  shows "elements (handleResizeMove mouseX mouseY s) =
           map (\<lambda>el. if el_id el = i
                 then el\<lparr>el_x := newX, el_y := newY, el_width := Math_max (Num 20) newWidth,
                         el_height := Math_max (Num 20) newHeight\<rparr>
                 else el) (elements s)"
  using assms by (simp add: handleResizeMove_def)

text \<open>
  Claim C5, as amended. When the selected vertex has a finite box and the pointer position
  is finite, a resize step with any handle leaves every element that has the selected id
  with a width and a height of at least 20, however far the pointer is dragged.
\<close>

theorem vertex_resize_minimum_size:
  assumes "isResizing s" and "selected s = Some i"
    and "find (\<lambda>el. el_id el = i) (elements s) = Some v" and "el_type v = Vertex"
    and "is_finite (el_x v)" and "is_finite (el_y v)"
    and "is_finite (el_width v)" and "is_finite (el_height v)"
    and "is_finite mouseX" and "is_finite mouseY"
  shows "\<forall>e \<in> set (elements (handleResizeMove mouseX mouseY s)).
           el_id e = i \<longrightarrow> Num 20 \<le> el_width e \<and> Num 20 \<le> el_height e"
proof -
  obtain a where a: "el_x v = Num a" using assms(5) is_finite_Num by blast
  obtain b where b: "el_y v = Num b" using assms(6) is_finite_Num by blast
  obtain w where w: "el_width v = Num w" using assms(7) is_finite_Num by blast
  obtain h where h: "el_height v = Num h" using assms(8) is_finite_Num by blast
  obtain mx where mx: "mouseX = Num mx" using assms(9) is_finite_Num by blast
  obtain my where my: "mouseY = Num my" using assms(10) is_finite_Num by blast
  obtain a' b' w' h' where sw: "resize_switch (resizeHandle s) v mouseX mouseY = (Num a', Num b', Num w', Num h')"
    using resize_switch_Num [OF a b w h] mx my by blast
  show ?thesis
  proof (intro ballI impI)
    fix e
    assume e: "e \<in> set (elements (handleResizeMove mouseX mouseY s))" and i: "el_id e = i"
    let ?f = "\<lambda>el. if el_id el = i
                 then el\<lparr>el_x := Num a', el_y := Num b', el_width := Math_max (Num 20) (Num w'),
                         el_height := Math_max (Num 20) (Num h')\<rparr>
                 else el"
    from e have "e \<in> ?f ` set (elements s)"
      unfolding handleResizeMove_vertex [OF assms(1-4) sw] by (simp only: set_map)
    then obtain el where "e = ?f el" by blast
    with i have "el_width e = Math_max (Num 20) (Num w') \<and> el_height e = Math_max (Num 20) (Num h')"
      by (cases "el_id el = i") simp_all
    then show "Num 20 \<le> el_width e \<and> Num 20 \<le> el_height e"
      by simp
  qed
qed


text \<open>The left handle dragged far to the right of the block gives the width 20;
  scenario C, the lower right handle, changes width and height only.\<close>

theorem vertex_resize_minimum_size_witness:
  "isResizing (resizing ''2'' ''w'' scene_A) \<and> selected (resizing ''2'' ''w'' scene_A) = Some ''2''
   \<and> find (\<lambda>el. el_id el = ''2'') (elements (resizing ''2'' ''w'' scene_A)) = Some (mk_vertex ''2'' 40 40 120 60)
   \<and> el_type (mk_vertex ''2'' 40 40 120 60) = Vertex
   \<and> is_finite (el_x (mk_vertex ''2'' 40 40 120 60)) \<and> is_finite (el_y (mk_vertex ''2'' 40 40 120 60))
   \<and> is_finite (el_width (mk_vertex ''2'' 40 40 120 60)) \<and> is_finite (el_height (mk_vertex ''2'' 40 40 120 60))
   \<and> is_finite (Num 500) \<and> is_finite (Num 0)
   \<and> elements (handleResizeMove (Num 500) (Num 0) (resizing ''2'' ''w'' scene_A))
       = [mk_vertex ''2'' 500 40 20 60, mk_vertex ''3'' 300 40 120 60]
   \<and> elements (handleResizeMove (Num 240) (Num 100) (resizing ''2'' ''se'' scene_A))
       = [mk_vertex ''2'' 40 40 200 60, mk_vertex ''3'' 300 40 120 60]
   \<and> Num 20 \<le> el_width (hd (elements (handleResizeMove (Num 500) (Num 0) (resizing ''2'' ''w'' scene_A))))
   \<and> Num 20 \<le> el_height (hd (elements (handleResizeMove (Num 500) (Num 0) (resizing ''2'' ''w'' scene_A))))"
proof -
  have h1: "isResizing (resizing ''2'' ''w'' scene_A)" by code_simp
  have h2: "selected (resizing ''2'' ''w'' scene_A) = Some ''2''" by code_simp
  have h3: "find (\<lambda>el. el_id el = ''2'') (elements (resizing ''2'' ''w'' scene_A)) = Some (mk_vertex ''2'' 40 40 120 60)"
    by code_simp
  have h4: "el_type (mk_vertex ''2'' 40 40 120 60) = Vertex" by code_simp
  have h5: "is_finite (el_x (mk_vertex ''2'' 40 40 120 60))" "is_finite (el_y (mk_vertex ''2'' 40 40 120 60))"
    "is_finite (el_width (mk_vertex ''2'' 40 40 120 60))" "is_finite (el_height (mk_vertex ''2'' 40 40 120 60))"
    by (simp_all add: mk_vertex_def)
  have h6: "is_finite (Num 500)" "is_finite (Num 0)" by simp_all
  have c1: "elements (handleResizeMove (Num 500) (Num 0) (resizing ''2'' ''w'' scene_A))
       = [mk_vertex ''2'' 500 40 20 60, mk_vertex ''3'' 300 40 120 60]" by code_simp
  have c2: "elements (handleResizeMove (Num 240) (Num 100) (resizing ''2'' ''se'' scene_A))
       = [mk_vertex ''2'' 40 40 200 60, mk_vertex ''3'' 300 40 120 60]" by code_simp
  have "hd (elements (handleResizeMove (Num 500) (Num 0) (resizing ''2'' ''w'' scene_A)))
          \<in> set (elements (handleResizeMove (Num 500) (Num 0) (resizing ''2'' ''w'' scene_A)))"
    and "el_id (hd (elements (handleResizeMove (Num 500) (Num 0) (resizing ''2'' ''w'' scene_A)))) = ''2''"
    unfolding c1 by (simp_all add: mk_vertex_def)
  with vertex_resize_minimum_size [OF h1 h2 h3 h4 h5 h6]
  have m: "Num 20 \<le> el_width (hd (elements (handleResizeMove (Num 500) (Num 0) (resizing ''2'' ''w'' scene_A))))"
    "Num 20 \<le> el_height (hd (elements (handleResizeMove (Num 500) (Num 0) (resizing ''2'' ''w'' scene_A))))"
    by blast+
  show ?thesis
    by (intro conjI) (rule h1 h2 h3 h4 h5 h6 c1 c2 m)+
qed

text \<open>A block whose \<open>x\<close> is not a number keeps no minimum: \<open>Math.max(20, NaN)\<close>
  is \<open>NaN\<close>.\<close>

theorem vertex_resize_nan_counterexample:
  "isResizing (resizing ''2'' ''nw'' [nan_vertex]) \<and> selected (resizing ''2'' ''nw'' [nan_vertex]) = Some ''2''
   \<and> map el_type (elements (resizing ''2'' ''nw'' [nan_vertex])) = [Vertex]
   \<and> map el_width (elements (handleResizeMove (Num 10) (Num 10) (resizing ''2'' ''nw'' [nan_vertex]))) = [NaN]
   \<and> \<not> Num 20 \<le> NaN"
  by code_simp

subsection \<open>Adding an arrow\<close>

text \<open>\<open>addArrow\<close> looks the two ids up among all the elements of the scene. It leaves
  the state as it is when one of them is not found. Otherwise it appends exactly one edge,
  from the first id to the second, whose points are the centres of the two elements found
  and whose box is the box of these two points.\<close>

lemma addArrow_result:
  "(find (\<lambda>el. el_id el = sourceId) (elements s) = None \<or>
    find (\<lambda>el. el_id el = targetId) (elements s) = None
      \<longrightarrow> addArrow newId sourceId targetId s = s)
   \<and> (\<forall>a b. find (\<lambda>el. el_id el = sourceId) (elements s) = Some a \<and>
            find (\<lambda>el. el_id el = targetId) (elements s) = Some b
      \<longrightarrow> (\<exists>e. elements (addArrow newId sourceId targetId s) = elements s @ [e]
             \<and> el_type e = Edge \<and> el_id e = newId
             \<and> el_source e = Some sourceId \<and> el_target e = Some targetId
             \<and> el_points e = Some [\<lparr>pt_x = el_x a + el_width a / Num 2, pt_y = el_y a + el_height a / Num 2\<rparr>,
                                  \<lparr>pt_x = el_x b + el_width b / Num 2, pt_y = el_y b + el_height b / Num 2\<rparr>]
             \<and> el_x e = Math_min (el_x a + el_width a / Num 2) (el_x b + el_width b / Num 2)
             \<and> el_y e = Math_min (el_y a + el_height a / Num 2) (el_y b + el_height b / Num 2)
             \<and> el_width e = \<bar>(el_x a + el_width a / Num 2) - (el_x b + el_width b / Num 2)\<bar>
             \<and> el_height e = \<bar>(el_y a + el_height a / Num 2) - (el_y b + el_height b / Num 2)\<bar>))"
  by (auto simp add: addArrow_def Let_def elements_push_history newArrow_def center_x_def center_y_def
      split: option.splits)

text \<open>Scenario A: the arrow between the two blocks runs from (100, 70) to (360, 70).\<close>

lemma addArrow_scenario_A:
  "find (\<lambda>el. el_id el = ''2'') (elements (loaded scene_A)) = Some (mk_vertex ''2'' 40 40 120 60)
   \<and> find (\<lambda>el. el_id el = ''3'') (elements (loaded scene_A)) = Some (mk_vertex ''3'' 300 40 120 60)
   \<and> find (\<lambda>el. el_id el = ''7'') (elements (loaded scene_A)) = None
   \<and> addArrow ''a1'' ''2'' ''7'' (loaded scene_A) = loaded scene_A
   \<and> (\<exists>e. elements (addArrow ''a1'' ''2'' ''3'' (loaded scene_A)) = elements (loaded scene_A) @ [e]
         \<and> el_source e = Some ''2'' \<and> el_target e = Some ''3'')
   \<and> elements (addArrow ''a1'' ''2'' ''3'' (loaded scene_A))
       = scene_A @ [(mk_edge ''a1'' ''2'' ''3'' [\<lparr>pt_x = Num 100, pt_y = Num 70\<rparr>, \<lparr>pt_x = Num 360, pt_y = Num 70\<rparr>])
            \<lparr>el_x := Num 100, el_y := Num 70, el_width := Num 260, el_height := Num 0,
             el_style := ''edgeStyle=straight;endArrow=classic;strokeColor=#333;strokeWidth=2;''\<rparr>]"
proof -
  have f2: "find (\<lambda>el. el_id el = ''2'') (elements (loaded scene_A)) = Some (mk_vertex ''2'' 40 40 120 60)"
    by code_simp
  have f3: "find (\<lambda>el. el_id el = ''3'') (elements (loaded scene_A)) = Some (mk_vertex ''3'' 300 40 120 60)"
    by code_simp
  have f7: "find (\<lambda>el. el_id el = ''7'') (elements (loaded scene_A)) = None"
    by code_simp
  have c: "elements (addArrow ''a1'' ''2'' ''3'' (loaded scene_A))
       = scene_A @ [(mk_edge ''a1'' ''2'' ''3'' [\<lparr>pt_x = Num 100, pt_y = Num 70\<rparr>, \<lparr>pt_x = Num 360, pt_y = Num 70\<rparr>])
            \<lparr>el_x := Num 100, el_y := Num 70, el_width := Num 260, el_height := Num 0,
             el_style := ''edgeStyle=straight;endArrow=classic;strokeColor=#333;strokeWidth=2;''\<rparr>]"
    by code_simp
  from addArrow_result [of "''2''" "loaded scene_A" "''7''" "''a1''"] f7
  have n: "addArrow ''a1'' ''2'' ''7'' (loaded scene_A) = loaded scene_A" by blast
  from addArrow_result [of "''2''" "loaded scene_A" "''3''" "''a1''"] f2 f3
  have e: "\<exists>e. elements (addArrow ''a1'' ''2'' ''3'' (loaded scene_A)) = elements (loaded scene_A) @ [e]
         \<and> el_source e = Some ''2'' \<and> el_target e = Some ''3''" by blast
  from f2 f3 f7 n e c show ?thesis by blast
qed

text \<open>
  Claim C6 at the scene of three blocks and one arrow. The id \<open>e1\<close> is the id of the
  arrow and of no vertex. \<open>addArrow\<close> from \<open>e1\<close> to the block \<open>v1\<close> does not leave the
  scene as it is: it appends an arrow whose source is \<open>e1\<close>, drawn from the centre of the
  box of that arrow.
\<close>

theorem addArrow_accepts_edge_id:
  "''e1'' \<notin> vertex_ids (elements (loaded scene_B))
   \<and> addArrow ''a1'' ''e1'' ''v1'' (loaded scene_B) \<noteq> loaded scene_B
   \<and> map el_id (elements (addArrow ''a1'' ''e1'' ''v1'' (loaded scene_B))) = [''v1'', ''v2'', ''v3'', ''e1'', ''a1'']
   \<and> map el_type (elements (addArrow ''a1'' ''e1'' ''v1'' (loaded scene_B))) = [Vertex, Vertex, Vertex, Edge, Edge]
   \<and> map el_source (elements (addArrow ''a1'' ''e1'' ''v1'' (loaded scene_B))) = [None, None, None, Some ''v1'', Some ''e1'']
   \<and> map el_points (elements (addArrow ''a1'' ''e1'' ''v1'' (loaded scene_B)))
        = [None, None, None, Some [], Some [\<lparr>pt_x = Num 0, pt_y = Num 0\<rparr>, \<lparr>pt_x = Num 60, pt_y = Num 30\<rparr>]]"
  by code_simp

text \<open>The next deletion of any block removes the arrow that starts at \<open>e1\<close>:
  \<open>pruneDanglingEdges\<close> keeps an edge between two vertices only.\<close>

lemma arrow_from_edge_pruned:
  "map el_id (elements (deleteSelected
      ((addArrow ''a1'' ''e1'' ''v1'' (loaded scene_B))\<lparr>selectedElement := Some ''v3''\<rparr>)))
     = [''v1'', ''v2'', ''e1'']"
  by code_simp

subsection \<open>Resize of an edge\<close>

lemma plus_finite: "is_finite a \<Longrightarrow> is_finite b \<Longrightarrow> is_finite (a + b)"
  by (cases a; cases b) simp_all


lemma times_finite: "is_finite a \<Longrightarrow> is_finite b \<Longrightarrow> is_finite (a * b)"
  by (cases a; cases b) simp_all

lemma divide_finite: "is_finite a \<Longrightarrow> is_finite b \<Longrightarrow> b \<noteq> Num 0 \<Longrightarrow> is_finite (a / b)"
  by (cases a; cases b) simp_all


lemma Math_max_20_nonzero: "is_finite b \<Longrightarrow> Math_max (Num 20) b \<noteq> Num 0"
  by (cases b) simp_all

lemma foldr_min_finite:
  "list_all is_finite xs \<Longrightarrow> foldr Math_min xs PosInf = PosInf \<or> is_finite (foldr Math_min xs PosInf)"
proof (induction xs)
  case Nil
  then show ?case by simp
next
  case (Cons x xs)
  then obtain r where "x = Num r" using is_finite_Num by auto
  with Cons show ?case
    by (cases "foldr Math_min xs PosInf") (auto simp add: Math_min_def)
qed

lemma foldr_max_finite:
  "list_all is_finite xs \<Longrightarrow> foldr Math_max xs NegInf = NegInf \<or> is_finite (foldr Math_max xs NegInf)"
proof (induction xs)
  case Nil
  then show ?case by simp
next
  case (Cons x xs)
  then obtain r where "x = Num r" using is_finite_Num by auto
  with Cons show ?case
    by (cases "foldr Math_max xs NegInf") (auto simp add: Math_max_def)
qed

lemma Math_min_list_finite: "list_all is_finite xs \<Longrightarrow> xs \<noteq> [] \<Longrightarrow> is_finite (Math_min_list xs)"
proof (cases xs)
  case Nil
  assume "xs \<noteq> []"
  with Nil show ?thesis by simp
next
  case (Cons x ys)
  assume "list_all is_finite xs"
  with Cons have x: "is_finite x" and ys: "list_all is_finite ys" by simp_all
  from x obtain r where "x = Num r" using is_finite_Num by auto
  with foldr_min_finite [OF ys] Cons show ?thesis
    by (cases "foldr Math_min ys PosInf") (auto simp add: Math_min_list_def Math_min_def)
qed

lemma Math_max_list_finite: "list_all is_finite xs \<Longrightarrow> xs \<noteq> [] \<Longrightarrow> is_finite (Math_max_list xs)"
proof (cases xs)
  case Nil
  assume "xs \<noteq> []"
  with Nil show ?thesis by simp
next
  case (Cons x ys)
  assume "list_all is_finite xs"
  with Cons have x: "is_finite x" and ys: "list_all is_finite ys" by simp_all
  from x obtain r where "x = Num r" using is_finite_Num by auto
  with foldr_max_finite [OF ys] Cons show ?thesis
    by (cases "foldr Math_max ys NegInf") (auto simp add: Math_max_list_def Math_max_def)
qed


lemma map_pt_x_finite: "list_all pt_finite ps \<Longrightarrow> list_all is_finite (map pt_x ps)"
  by (induction ps) (simp_all add: pt_finite_def)

lemma map_pt_y_finite: "list_all pt_finite ps \<Longrightarrow> list_all is_finite (map pt_y ps)"
  by (induction ps) (simp_all add: pt_finite_def)











subsection \<open>Rotation of an edge\<close>

lemma pt_finite_Num: "pt_finite p \<Longrightarrow> \<exists>a b. pt_x p = Num a \<and> pt_y p = Num b"
  using is_finite_Num by (auto simp add: pt_finite_def)

lemma normalizedAngle_finite:
  assumes "pt_finite c" and "is_finite mx" and "is_finite my"
  shows "is_finite (normalizedAngle c mx my * Num pi / Num 180)"
proof -
  from pt_finite_Num [OF assms(1)] obtain a b where c: "pt_x c = Num a" "pt_y c = Num b" by blast
  from assms(2,3) obtain x y where m: "mx = Num x" "my = Num y" using is_finite_Num by blast
  have "is_finite (normalizedAngle c mx my)"
    by (simp add: normalizedAngle_def Let_def c m)
  then show ?thesis
    by (intro divide_finite times_finite) simp_all
qed

lemma rotation_identity:
  fixes px py qx qy cx cy c s :: real
  shows "(cx + (px - cx) * c - (py - cy) * s - (cx + (qx - cx) * c - (qy - cy) * s))\<^sup>2
       + (cy + (px - cx) * s + (py - cy) * c - (cy + (qx - cx) * s + (qy - cy) * c))\<^sup>2
       = ((px - qx)\<^sup>2 + (py - qy)\<^sup>2) * (s\<^sup>2 + c\<^sup>2)"
  by (simp add: power2_eq_square algebra_simps)

lemma rotation_preserves_distance:
  fixes px py qx qy cx cy t :: real
  shows "(cx + (px - cx) * cos t - (py - cy) * sin t - (cx + (qx - cx) * cos t - (qy - cy) * sin t))\<^sup>2
       + (cy + (px - cx) * sin t + (py - cy) * cos t - (cy + (qx - cx) * sin t + (qy - cy) * cos t))\<^sup>2
       = (px - qx)\<^sup>2 + (py - qy)\<^sup>2"
  unfolding rotation_identity by simp

lemma rotate_point_dist:
  assumes "pt_finite p" "pt_finite q"
  shows "pt_dist (rotate_point (Num cx) (Num cy) (Math_cos (Num t)) (Math_sin (Num t)) p)
                 (rotate_point (Num cx) (Num cy) (Math_cos (Num t)) (Math_sin (Num t)) q)
         = pt_dist p q"
proof -
  from pt_finite_Num [OF assms(1)] obtain a b where p: "pt_x p = Num a" "pt_y p = Num b" by blast
  from pt_finite_Num [OF assms(2)] obtain c d where q: "pt_x q = Num c" "pt_y q = Num d" by blast
  have "pt_dist (rotate_point (Num cx) (Num cy) (Math_cos (Num t)) (Math_sin (Num t)) p)
                 (rotate_point (Num cx) (Num cy) (Math_cos (Num t)) (Math_sin (Num t)) q)
      = sqrt ((cx + (a - cx) * cos t - (b - cy) * sin t - (cx + (c - cx) * cos t - (d - cy) * sin t))\<^sup>2
       + (cy + (a - cx) * sin t + (b - cy) * cos t - (cy + (c - cx) * sin t + (d - cy) * cos t))\<^sup>2)"
    by (simp add: pt_dist_def rotate_point_def p q)
  also have "\<dots> = sqrt ((a - c)\<^sup>2 + (b - d)\<^sup>2)"
    by (simp only: rotation_preserves_distance)
  also have "\<dots> = pt_dist p q"
    by (simp add: pt_dist_def p q)
  finally show ?thesis .
qed

lemma handleRotateMove_edge:
  assumes "isRotating s" and "selected s = Some i"
    and "find (\<lambda>el. el_id el = i) (elements s) = Some e" and "el_type e = Edge"
    and "initialRotatePoints s = Some pts"
  shows "elements (handleRotateMove mx my s) =
     (let rad = normalizedAngle (rotationCenter s) mx my * Num pi / Num 180;
          rotated = map (rotate_point (pt_x (rotationCenter s)) (pt_y (rotationCenter s))
                           (Math_cos rad) (Math_sin rad)) pts
      in map (\<lambda>el. if el_id el = i
           then el\<lparr>el_points := Some rotated,
                   el_x := Math_min_list (map pt_x rotated), el_y := Math_min_list (map pt_y rotated),
                   el_width := Math_max_list (map pt_x rotated) - Math_min_list (map pt_x rotated),
                   el_height := Math_max_list (map pt_y rotated) - Math_min_list (map pt_y rotated)\<rparr>
           else el) (elements s))"
  using assms by (simp add: handleRotateMove_def Let_def)

lemma startRotate_edge:
  assumes "selected s = Some i"
    and "find (\<lambda>el. el_id el = i) (elements s) = Some e" and "el_type e = Edge"
    and "el_points e = Some pts" and "pts \<noteq> []"
  shows "isRotating (startRotate s) \<and> selected (startRotate s) = Some i
       \<and> elements (startRotate s) = elements s
       \<and> initialRotatePoints (startRotate s) = Some pts
       \<and> rotationCenter (startRotate s) =
            \<lparr>pt_x = (Math_min_list (map pt_x pts) + Math_max_list (map pt_x pts)) / Num 2,
             pt_y = (Math_min_list (map pt_y pts) + Math_max_list (map pt_y pts)) / Num 2\<rparr>"
  using assms by (simp add: startRotate_def Let_def points_or_box_def selected_def split: option.splits)


text \<open>
  Claim C9. Let an edge with at least two points, all finite, be selected, let the rotation
  start (\<open>startRotate\<close>) and let the pointer move to any finite position. The pivot is
  the centre of the bounding box of the points; every point is mapped by the rotation of
  the plane about the pivot by one angle \<open>t\<close>; the box of the edge is recomputed as the
  minimum and maximum over the rotated points; and the distance between any two points of
  the edge is the same before and after.
\<close>

theorem edge_rotation_isometric:
  assumes "selected s = Some i"
    and "find (\<lambda>el. el_id el = i) (elements s) = Some e" and "el_type e = Edge"
    and "el_points e = Some pts" and "2 \<le> length pts" and "list_all pt_finite pts"
    and "is_finite mx" and "is_finite my"
  shows "\<exists>cx cy t rotated.
      rotationCenter (startRotate s) = \<lparr>pt_x = Num cx, pt_y = Num cy\<rparr>
    \<and> Num cx = (Math_min_list (map pt_x pts) + Math_max_list (map pt_x pts)) / Num 2
    \<and> Num cy = (Math_min_list (map pt_y pts) + Math_max_list (map pt_y pts)) / Num 2
    \<and> rotated = map (\<lambda>p. \<lparr>pt_x = Num (cx + (the_real (pt_x p) - cx) * cos t - (the_real (pt_y p) - cy) * sin t),
                           pt_y = Num (cy + (the_real (pt_x p) - cx) * sin t + (the_real (pt_y p) - cy) * cos t)\<rparr>) pts
    \<and> elements (handleRotateMove mx my (startRotate s)) =
         map (\<lambda>el. if el_id el = i
           then el\<lparr>el_points := Some rotated,
                   el_x := Math_min_list (map pt_x rotated), el_y := Math_min_list (map pt_y rotated),
                   el_width := Math_max_list (map pt_x rotated) - Math_min_list (map pt_x rotated),
                   el_height := Math_max_list (map pt_y rotated) - Math_min_list (map pt_y rotated)\<rparr>
           else el) (elements s)
    \<and> (\<forall>j < length pts. \<forall>k < length pts.
          pt_dist (rotated ! j) (rotated ! k) = pt_dist (pts ! j) (pts ! k))"
proof -
  have ne: "pts \<noteq> []" using assms(5) by auto
  note st = startRotate_edge [OF assms(1-4) ne]
  have xs: "list_all is_finite (map pt_x pts)" "map pt_x pts \<noteq> []"
    using assms(6) ne map_pt_x_finite by simp_all
  have ys: "list_all is_finite (map pt_y pts)" "map pt_y pts \<noteq> []"
    using assms(6) ne map_pt_y_finite by simp_all
  have fx: "is_finite ((Math_min_list (map pt_x pts) + Math_max_list (map pt_x pts)) / Num 2)"
    by (intro divide_finite plus_finite Math_min_list_finite Math_max_list_finite xs) simp_all
  have fy: "is_finite ((Math_min_list (map pt_y pts) + Math_max_list (map pt_y pts)) / Num 2)"
    by (intro divide_finite plus_finite Math_min_list_finite Math_max_list_finite ys) simp_all
  from fx obtain cx where cx: "(Math_min_list (map pt_x pts) + Math_max_list (map pt_x pts)) / Num 2 = Num cx"
    using is_finite_Num by blast
  from fy obtain cy where cy: "(Math_min_list (map pt_y pts) + Math_max_list (map pt_y pts)) / Num 2 = Num cy"
    using is_finite_Num by blast
  have rc: "rotationCenter (startRotate s) = \<lparr>pt_x = Num cx, pt_y = Num cy\<rparr>"
    using st cx cy by simp
  have "pt_finite (rotationCenter (startRotate s))"
    by (simp add: rc pt_finite_def)
  from normalizedAngle_finite [OF this assms(7,8)]
  obtain t where t: "normalizedAngle (rotationCenter (startRotate s)) mx my * Num pi / Num 180 = Num t"
    using is_finite_Num by blast
  let ?rot = "rotate_point (Num cx) (Num cy) (Math_cos (Num t)) (Math_sin (Num t))"
  let ?std = "\<lambda>p. \<lparr>pt_x = Num (cx + (the_real (pt_x p) - cx) * cos t - (the_real (pt_y p) - cy) * sin t),
                   pt_y = Num (cy + (the_real (pt_x p) - cx) * sin t + (the_real (pt_y p) - cy) * cos t)\<rparr>"
  have std: "?rot p = ?std p" if "pt_finite p" for p
  proof -
    from pt_finite_Num [OF that] obtain a b where "pt_x p = Num a" "pt_y p = Num b" by blast
    then show ?thesis by (simp add: rotate_point_def)
  qed
  have map_eq: "map ?rot pts = map ?std pts"
    using assms(6) std by (simp add: list_all_iff)
  have find': "find (\<lambda>el. el_id el = i) (elements (startRotate s)) = Some e"
    using st assms(2) by simp
  have rcx: "pt_x (rotationCenter (startRotate s)) = Num cx"
    and rcy: "pt_y (rotationCenter (startRotate s)) = Num cy" by (simp_all add: rc)
  have els0: "elements (startRotate s) = elements s" using st by simp
  have h: "elements (handleRotateMove mx my (startRotate s)) =
     (let rad = normalizedAngle (rotationCenter (startRotate s)) mx my * Num pi / Num 180;
          rotated = map (rotate_point (pt_x (rotationCenter (startRotate s))) (pt_y (rotationCenter (startRotate s)))
                           (Math_cos rad) (Math_sin rad)) pts
      in map (\<lambda>el. if el_id el = i
           then el\<lparr>el_points := Some rotated,
                   el_x := Math_min_list (map pt_x rotated), el_y := Math_min_list (map pt_y rotated),
                   el_width := Math_max_list (map pt_x rotated) - Math_min_list (map pt_x rotated),
                   el_height := Math_max_list (map pt_y rotated) - Math_min_list (map pt_y rotated)\<rparr>
           else el) (elements (startRotate s)))"
    by (rule handleRotateMove_edge [where e = e]) (use st find' assms(3) in simp_all)
  have els: "elements (handleRotateMove mx my (startRotate s)) =
         map (\<lambda>el. if el_id el = i
           then el\<lparr>el_points := Some (map ?std pts),
                   el_x := Math_min_list (map pt_x (map ?std pts)), el_y := Math_min_list (map pt_y (map ?std pts)),
                   el_width := Math_max_list (map pt_x (map ?std pts)) - Math_min_list (map pt_x (map ?std pts)),
                   el_height := Math_max_list (map pt_y (map ?std pts)) - Math_min_list (map pt_y (map ?std pts))\<rparr>
           else el) (elements s)"
    unfolding h t rcx rcy els0 Let_def map_eq ..
  have dist: "pt_dist (map ?std pts ! j) (map ?std pts ! k) = pt_dist (pts ! j) (pts ! k)"
    if "j < length pts" "k < length pts" for j k
  proof -
    have pj: "pt_finite (pts ! j)" and pk: "pt_finite (pts ! k)"
      using assms(6) that by (simp_all add: list_all_length)
    have "pt_dist (?rot (pts ! j)) (?rot (pts ! k)) = pt_dist (pts ! j) (pts ! k)"
      using pj pk by (rule rotate_point_dist)
    then show ?thesis
      unfolding map_eq [symmetric] using that by simp
  qed
  from rc cx cy els dist show ?thesis
    by (intro exI [of _ cx] exI [of _ cy] exI [of _ t] exI [of _ "map ?std pts"]) simp
qed

lemma rotating_bent_edge: "rotating ''e1'' [bent_edge] =
   (loaded [bent_edge])\<lparr>selectedElement := Some ''e1'', isRotating := True,
      rotationCenter := \<lparr>pt_x = Num 50, pt_y = Num 25\<rparr>,
      initialRotatePoints := Some [\<lparr>pt_x = Num 0, pt_y = Num 0\<rparr>, \<lparr>pt_x = Num 100, pt_y = Num 0\<rparr>, \<lparr>pt_x = Num 100, pt_y = Num 50\<rparr>]\<rparr>"
  by code_simp

lemma normalizedAngle_below: "normalizedAngle \<lparr>pt_x = Num 50, pt_y = Num 25\<rparr> (Num 50) (Num 125) = Num 90"
  by (simp add: normalizedAngle_def Let_def atan2_real_def fmod_real_def)

lemma quarter_turn:
  "map el_points (elements (handleRotateMove (Num 50) (Num 125) (rotating ''e1'' [bent_edge])))
     = [Some [\<lparr>pt_x = Num 75, pt_y = Num (-25)\<rparr>, \<lparr>pt_x = Num 75, pt_y = Num 75\<rparr>, \<lparr>pt_x = Num 25, pt_y = Num 75\<rparr>]]"
  unfolding rotating_bent_edge
  by (simp add: handleRotateMove_def loaded_def selected_def bent_edge_def mk_edge_def
      normalizedAngle_below Let_def rotate_point_def)

text \<open>The arrow with a bend, turned by a quarter about the centre (50, 25) of its box.\<close>

theorem edge_rotation_isometric_witness:
  "selected ((loaded [bent_edge])\<lparr>selectedElement := Some ''e1''\<rparr>) = Some ''e1''
   \<and> find (\<lambda>el. el_id el = ''e1'') (elements ((loaded [bent_edge])\<lparr>selectedElement := Some ''e1''\<rparr>)) = Some bent_edge
   \<and> el_type bent_edge = Edge
   \<and> el_points bent_edge = Some [\<lparr>pt_x = Num 0, pt_y = Num 0\<rparr>, \<lparr>pt_x = Num 100, pt_y = Num 0\<rparr>, \<lparr>pt_x = Num 100, pt_y = Num 50\<rparr>]
   \<and> 2 \<le> length [\<lparr>pt_x = Num 0, pt_y = Num 0\<rparr>, \<lparr>pt_x = Num 100, pt_y = Num 0\<rparr>, \<lparr>pt_x = Num 100, pt_y = Num 50\<rparr>]
   \<and> list_all pt_finite [\<lparr>pt_x = Num 0, pt_y = Num 0\<rparr>, \<lparr>pt_x = Num 100, pt_y = Num 0\<rparr>, \<lparr>pt_x = Num 100, pt_y = Num 50\<rparr>]
   \<and> is_finite (Num 50) \<and> is_finite (Num 125)
   \<and> map el_points (elements (handleRotateMove (Num 50) (Num 125) (rotating ''e1'' [bent_edge])))
        = [Some [\<lparr>pt_x = Num 75, pt_y = Num (-25)\<rparr>, \<lparr>pt_x = Num 75, pt_y = Num 75\<rparr>, \<lparr>pt_x = Num 25, pt_y = Num 75\<rparr>]]
   \<and> pt_dist \<lparr>pt_x = Num 75, pt_y = Num (-25)\<rparr> \<lparr>pt_x = Num 25, pt_y = Num 75\<rparr>
        = pt_dist \<lparr>pt_x = Num 0, pt_y = Num 0\<rparr> \<lparr>pt_x = Num 100, pt_y = Num 50\<rparr>"
proof -
  let ?s = "(loaded [bent_edge])\<lparr>selectedElement := Some ''e1''\<rparr>"
  let ?pts = "[\<lparr>pt_x = Num 0, pt_y = Num 0\<rparr>, \<lparr>pt_x = Num 100, pt_y = Num 0\<rparr>, \<lparr>pt_x = Num 100, pt_y = Num 50\<rparr>]"
  have h1: "selected ?s = Some ''e1''" by code_simp
  have h2: "find (\<lambda>el. el_id el = ''e1'') (elements ?s) = Some bent_edge" by code_simp
  have h3: "el_type bent_edge = Edge" by code_simp
  have h4: "el_points bent_edge = Some ?pts" by code_simp
  have h5: "2 \<le> length ?pts" by simp
  have h6: "list_all pt_finite ?pts" by (simp add: pt_finite_def)
  have h7: "is_finite (Num 50)" "is_finite (Num 125)" by simp_all
  from edge_rotation_isometric [OF h1 h2 h3 h4 h5 h6 h7]
  obtain rotated where
    els: "map el_points (elements (handleRotateMove (Num 50) (Num 125) (startRotate ?s))) = [Some rotated]"
    and dist: "\<forall>j < length ?pts. \<forall>k < length ?pts. pt_dist (rotated ! j) (rotated ! k) = pt_dist (?pts ! j) (?pts ! k)"
    by (auto simp add: loaded_def bent_edge_def mk_edge_def)
  have q: "map el_points (elements (handleRotateMove (Num 50) (Num 125) (startRotate ?s)))
     = [Some [\<lparr>pt_x = Num 75, pt_y = Num (-25)\<rparr>, \<lparr>pt_x = Num 75, pt_y = Num 75\<rparr>, \<lparr>pt_x = Num 25, pt_y = Num 75\<rparr>]]"
    using quarter_turn by (simp add: rotating_def)
  with els have r: "rotated = [\<lparr>pt_x = Num 75, pt_y = Num (-25)\<rparr>, \<lparr>pt_x = Num 75, pt_y = Num 75\<rparr>, \<lparr>pt_x = Num 25, pt_y = Num 75\<rparr>]"
    by simp
  from dist have "pt_dist (rotated ! 0) (rotated ! 2) = pt_dist (?pts ! 0) (?pts ! 2)"
    by simp
  then have d: "pt_dist \<lparr>pt_x = Num 75, pt_y = Num (-25)\<rparr> \<lparr>pt_x = Num 25, pt_y = Num 75\<rparr>
        = pt_dist \<lparr>pt_x = Num 0, pt_y = Num 0\<rparr> \<lparr>pt_x = Num 100, pt_y = Num 50\<rparr>"
    unfolding r by simp
  from h1 h2 h3 h4 h5 h6 h7 q d show ?thesis
    unfolding rotating_def by blast
qed

subsection \<open>Stale cells\<close>

lemma stale_Elem: "stale K (Elem t a ks m) = stale K (Elem t a [] False)"
  by (simp add: stale_def attr_or_empty_def getAttribute_def)

lemma no_stale_Elem:
  "no_stale K (Elem t a ks m) = (\<not> stale K (Elem t a [] False) \<and> (\<forall>k \<in> set ks. no_stale K k))"
  using stale_Elem [of K t a ks m] by (auto simp add: no_stale_def)

lemma no_stale_remove_below: "\<not> stale K n \<Longrightarrow> no_stale K (remove_below (stale K) n)"
proof (induction n)
  case (Elem t a ks m)
  have "\<not> stale K (Elem t a [] False)"
    using Elem.prems stale_Elem by blast
  moreover have "no_stale K (remove_below (stale K) k)" if "k \<in> set ks" "\<not> stale K k" for k
    using Elem.IH that by blast
  ultimately show ?case
    by (auto simp add: no_stale_Elem)
qed

lemma no_stale_remove_any: "no_stale K n \<Longrightarrow> no_stale K (remove_below p n)"
proof (induction n)
  case (Elem t a ks m)
  then show ?case by (auto simp add: no_stale_Elem)
qed

lemma no_stale_clear_ref: "no_stale K n \<Longrightarrow> no_stale K (clear_ref n)"
proof (induction n)
  case (Elem t a ks m)
  then show ?case by (auto simp add: no_stale_Elem)
qed

lemma update_first_no_stale_aux:
  shows "(\<And>n. no_stale K n \<Longrightarrow> no_stale K (f n)) \<Longrightarrow>
           update_first_node p f n = Some n' \<Longrightarrow> no_stale K n \<Longrightarrow> no_stale K n'"
    and "(\<And>n. no_stale K n \<Longrightarrow> no_stale K (f n)) \<Longrightarrow>
           update_first_list p f ns = Some ns' \<Longrightarrow> \<forall>k \<in> set ns. no_stale K k \<Longrightarrow> \<forall>k \<in> set ns'. no_stale K k"
proof (induction p f n and p f ns arbitrary: n' and ns' rule: update_first_node_update_first_list.induct)
  case (1 p f t a ks m)
  show ?case
  proof (cases "p (Elem t a ks m)")
    case True
    with "1.prems" show ?thesis by auto
  next
    case False
    with "1.prems"(2) obtain ks' where ks': "update_first_list p f ks = Some ks'" and n': "n' = Elem t a ks' m"
      by (auto split: option.splits)
    from "1.prems"(3) have top: "\<not> stale K (Elem t a [] False)" and below: "\<forall>k \<in> set ks. no_stale K k"
      by (simp_all add: no_stale_Elem)
    from "1.IH" [OF False "1.prems"(1) ks' below] top show ?thesis
      by (simp add: n' no_stale_Elem)
  qed
next
  case (2 p f)
  then show ?case by simp
next
  case (3 p f n ns)
  show ?case
  proof (cases "update_first_node p f n")
    case None
    with "3.prems"(2) obtain ns0 where ns0: "update_first_list p f ns = Some ns0" and e: "ns' = n # ns0"
      by (auto split: option.splits)
    from "3.IH"(2) [OF None "3.prems"(1) ns0] "3.prems"(3) show ?thesis
      by (simp add: e)
  next
    case (Some n0)
    with "3.prems"(2) have e: "ns' = n0 # ns" by simp
    from "3.IH"(1) [OF "3.prems"(1) Some] "3.prems"(3) show ?thesis
      by (simp add: e)
  qed
qed

lemma update_first_no_stale:
  assumes "\<And>n. no_stale K n \<Longrightarrow> no_stale K (f n)" and "\<forall>k \<in> set ns. no_stale K k"
  shows "\<forall>k \<in> set (update_first p f ns). no_stale K k"
proof (cases "update_first_list p f ns")
  case None
  then show ?thesis using assms(2) by (simp add: update_first_def)
next
  case (Some ns')
  from update_first_no_stale_aux(2) [OF assms(1) Some assms(2)] Some show ?thesis
    by (simp add: update_first_def)
qed


lemma map_of_set_attr: "map_of (set_attr k v a) = (map_of a)(k \<mapsto> v)"
  by (induction a) (auto simp add: fun_eq_iff)

lemma tag_setAttribute [simp]: "tag (setAttribute k v n) = tag n"
  by (cases n) simp

lemma kids_setAttribute [simp]: "kids (setAttribute k v n) = kids n"
  by (cases n) simp

lemma getAttribute_setAttribute:
  "getAttribute (setAttribute k v n) k' = (if k' = k then Some v else getAttribute n k')"
  by (cases n) (simp add: getAttribute_def map_of_set_attr)

lemma stale_setAttribute: "k \<noteq> ''id'' \<Longrightarrow> stale K (setAttribute k v n) = stale K n"
  by (simp add: stale_def attr_or_empty_def getAttribute_setAttribute)

lemma no_stale_setAttribute: "k \<noteq> ''id'' \<Longrightarrow> no_stale K n \<Longrightarrow> no_stale K (setAttribute k v n)"
proof (cases n)
  case (Elem t a ks m)
  assume k: "k \<noteq> ''id''" and n: "no_stale K n"
  from stale_setAttribute [OF k, of K v "Elem t a [] False"] n Elem show ?thesis
    by (simp add: no_stale_Elem)
qed

lemma no_stale_set_if_truthy: "k \<noteq> ''id'' \<Longrightarrow> no_stale K n \<Longrightarrow> no_stale K (set_if_truthy k v n)"
  by (simp add: set_if_truthy_def no_stale_setAttribute)

lemma no_stale_appendChild: "no_stale K n \<Longrightarrow> no_stale K c \<Longrightarrow> no_stale K (appendChild c n)"
  by (cases n) (auto simp add: no_stale_Elem)

lemma no_stale_other_tag: "t \<noteq> ''mxCell'' \<Longrightarrow> \<forall>k \<in> set ks. no_stale K k \<Longrightarrow> no_stale K (Elem t a ks m)"
  by (simp add: no_stale_Elem stale_def)

lemma no_stale_createElement: "t \<noteq> ''mxCell'' \<Longrightarrow> no_stale K (createElement t)"
  by (simp add: createElement_def no_stale_other_tag)

lemma no_stale_mxPoint: "no_stale K (mxPoint p r)"
  by (cases r) (simp_all add: mxPoint_def Let_def no_stale_setAttribute no_stale_createElement)

lemma no_stale_append_points: "no_stale K g \<Longrightarrow> no_stale K (append_points ps g)"
  by (simp add: append_points_def Let_def no_stale_appendChild no_stale_mxPoint no_stale_other_tag)

lemma no_stale_vertex_geometry: "no_stale K g \<Longrightarrow> no_stale K (vertex_geometry el g)"
  by (simp add: vertex_geometry_def no_stale_setAttribute)

lemma no_stale_edge_geometry: "no_stale K g \<Longrightarrow> no_stale K (edge_geometry el g)"
  by (simp add: edge_geometry_def no_stale_setAttribute no_stale_remove_any no_stale_append_points)

lemma no_stale_with_geometry:
  assumes "\<And>g. no_stale K g \<Longrightarrow> no_stale K (f g)" and "no_stale K cell"
  shows "no_stale K (with_geometry f cell)"
proof (cases cell)
  case (Elem t a ks m)
  with assms(2) have top: "\<not> stale K (Elem t a [] False)" and below: "\<forall>k \<in> set ks. no_stale K k"
    by (simp_all add: no_stale_Elem)
  have "\<forall>k \<in> set (update_first (\<lambda>n. tag n = ''mxGeometry'') f ks). no_stale K k"
    using below by (intro update_first_no_stale assms(1))
  with top have 1: "no_stale K (Elem t a (update_first (\<lambda>n. tag n = ''mxGeometry'') f ks) m)"
    by (simp add: no_stale_Elem)
  have 2: "no_stale K (appendChild (f (createElement ''mxGeometry'')) cell)"
    by (intro no_stale_appendChild assms no_stale_createElement) simp
  from 1 2 Elem show ?thesis
    by (simp add: with_geometry_def)
qed

lemma no_stale_update_cell: "no_stale K cell \<Longrightarrow> no_stale K (update_cell el cell)"
  by (cases "el_type el")
     (simp_all add: update_cell_def no_stale_set_if_truthy no_stale_setAttribute
        no_stale_with_geometry no_stale_vertex_geometry no_stale_edge_geometry)

lemma no_stale_new_cell: "el_id el \<in> K \<Longrightarrow> no_stale K (new_cell el)"
proof -
  assume k: "el_id el \<in> K"
  let ?cell = "setAttribute ''parent'' (Str ''1'') (setAttribute ''id'' (Str (el_id el)) (createElement ''mxCell''))"
  have c: "no_stale K ?cell"
    using k by (simp add: createElement_def no_stale_Elem stale_def attr_or_empty_def getAttribute_def)
  show ?thesis
    using c
    by (cases "el_type el")
       (simp_all add: new_cell_def Let_def no_stale_appendChild no_stale_vertex_geometry
          no_stale_append_points no_stale_setAttribute no_stale_set_if_truthy no_stale_createElement)
qed

lemma no_stale_prepare: "\<forall>k \<in> set (prepare els d). no_stale (keepIds els) k"
  by (auto simp add: prepare_def Let_def doc_remove_def no_stale_remove_below)

lemma no_stale_encode_elements:
  "encode_elements r els doc = Inr doc' \<Longrightarrow> \<forall>e \<in> set els. el_id e \<in> K \<Longrightarrow>
     \<forall>k \<in> set doc. no_stale K k \<Longrightarrow> \<forall>k \<in> set doc'. no_stale K k"
proof (induction els arbitrary: doc)
  case Nil
  then show ?case by simp
next
  case (Cons el els)
  show ?case
  proof (cases "find (is_cell (el_id el)) (doc_nodes doc)")
    case None
    with Cons.prems(1) have r: "r"
      and step: "encode_elements r els (update_first root_ref (appendChild (new_cell el)) doc) = Inr doc'"
      by (auto split: if_splits)
    have "\<forall>k \<in> set (update_first root_ref (appendChild (new_cell el)) doc). no_stale K k"
      using Cons.prems(2,3) by (intro update_first_no_stale no_stale_appendChild no_stale_new_cell) simp_all
    from Cons.IH [OF step _ this] Cons.prems(2) show ?thesis by simp
  next
    case (Some c)
    with Cons.prems(1)
    have step: "encode_elements r els (update_first (is_cell (el_id el)) (update_cell el) doc) = Inr doc'"
      by simp
    have "\<forall>k \<in> set (update_first (is_cell (el_id el)) (update_cell el) doc). no_stale K k"
      using Cons.prems(3) by (intro update_first_no_stale no_stale_update_cell) simp_all
    from Cons.IH [OF step _ this] Cons.prems(2) show ?thesis by simp
  qed
qed

lemma encode_elements_total: "\<exists>doc'. encode_elements True els doc = Inr doc'"
  by (induction els arbitrary: doc) (auto split: option.splits)

lemma no_stale_cells:
  assumes "\<forall>k \<in> set doc. no_stale K k" and "c \<in> set (doc_getElementsByTagName doc ''mxCell'')"
    and "attr_or_empty c ''id'' \<noteq> []"
  shows "attr_or_empty c ''id'' \<in> K"
  using assms by (auto simp add: doc_getElementsByTagName_def doc_nodes_def no_stale_def stale_def)

text \<open>
  Claim C2, as amended, for the \<open>elementsToXml\<close> that has the loop removing cells. Let the
  ids of the elements be free of the characters that end or escape a string in a selector.
  When the document has a \<open>root\<close> or an \<open>mxGraphModel\<close> element, the body of
  \<open>elementsToXml\<close> ends without an exception. Whenever it ends without an exception, the
  document that is returned contains no cell with a non-empty id outside of \<open>"0"\<close>,
  \<open>"1"\<close> and the ids of the elements: the cell of an element that has been deleted from
  the scene is gone. When the body throws, the document is returned as it was.
\<close>

theorem encode_removes_stale_cells:
  assumes "\<forall>e \<in> set els. css_plain (el_id e)"
  shows "(has_root d \<longrightarrow> (\<exists>doc. encode_elements (has_root d) els (prepare els d) = Inr doc))
       \<and> (\<forall>doc. encode_elements (has_root d) els (prepare els d) = Inr doc \<longrightarrow>
             elementsToXml (Some d) els = Some (map clear_ref doc)
           \<and> (\<forall>c \<in> set (doc_getElementsByTagName (map clear_ref doc) ''mxCell'').
                 attr_or_empty c ''id'' \<noteq> [] \<longrightarrow> attr_or_empty c ''id'' \<in> keepIds els))
       \<and> (\<forall>err. encode_elements (has_root d) els (prepare els d) = Inl err \<longrightarrow>
             elementsToXml (Some d) els = Some d)"
proof (intro conjI impI allI)
  assume "has_root d"
  then show "\<exists>doc. encode_elements (has_root d) els (prepare els d) = Inr doc"
    using encode_elements_total by simp
next
  fix doc
  assume enc: "encode_elements (has_root d) els (prepare els d) = Inr doc"
  then show "elementsToXml (Some d) els = Some (map clear_ref doc)"
    by (simp add: elementsToXml_def)
  have ids: "\<forall>e \<in> set els. el_id e \<in> keepIds els"
    by (simp add: keepIds_def)
  from no_stale_encode_elements [OF enc ids no_stale_prepare]
  have "\<forall>k \<in> set (map clear_ref doc). no_stale (keepIds els) k"
    by (simp add: no_stale_clear_ref)
  then show "\<forall>c \<in> set (doc_getElementsByTagName (map clear_ref doc) ''mxCell'').
                 attr_or_empty c ''id'' \<noteq> [] \<longrightarrow> attr_or_empty c ''id'' \<in> keepIds els"
    using no_stale_cells by blast
next
  fix err
  assume "encode_elements (has_root d) els (prepare els d) = Inl err"
  then show "elementsToXml (Some d) els = Some d"
    by (simp add: elementsToXml_def)
qed

text \<open>In a document with neither element, the block \<open>2\<close> is deleted and a block \<open>9\<close> is
  added: \<open>root.appendChild\<close> throws, the original text is returned, and the cell \<open>2\<close>
  is still in it.\<close>

theorem encode_fallback_keeps_stale_cell_counterexample:
  "elementsToXml (Some bare_doc) [mk_vertex ''9'' 0 0 120 60] = Some bare_doc
   \<and> map (\<lambda>c. attr_or_empty c ''id'') (doc_getElementsByTagName bare_doc ''mxCell'') = [''2'']
   \<and> ''2'' \<notin> keepIds [mk_vertex ''9'' 0 0 120 60]
   \<and> parseXmlToElements (Some bare_doc) = [mk_vertex ''2'' 40 40 120 60]"
  by code_simp

text \<open>The other variant of \<open>elementsToXml\<close> keeps the cell of a deleted block.\<close>

lemma unpruned_encode_keeps_deleted_cell:
  "map (\<lambda>c. attr_or_empty c ''id'')
     (doc_getElementsByTagName (the (elementsToXml_unpruned (Some doc_A) [mk_vertex ''3'' 300 40 120 60])) ''mxCell'')
   = [''0'', ''1'', ''2'', ''3'']"
  by code_simp

text \<open>In the document of scenario A, the block \<open>2\<close> is deleted and a block \<open>9\<close> is
  added.\<close>

theorem encode_removes_stale_cells_witness:
  "css_plain ''3'' \<and> css_plain ''9''
   \<and> has_root doc_A
   \<and> map el_id (parseXmlToElements (Some doc_A)) = [''2'', ''3'']
   \<and> (\<exists>doc. elementsToXml (Some doc_A) [mk_vertex ''3'' 300 40 120 60, mk_vertex ''9'' 0 0 120 60] = Some doc
         \<and> map (\<lambda>c. attr_or_empty c ''id'') (doc_getElementsByTagName doc ''mxCell'') = [''0'', ''1'', ''3'', ''9'']
         \<and> (\<forall>c \<in> set (doc_getElementsByTagName doc ''mxCell'').
                 attr_or_empty c ''id'' \<noteq> [] \<longrightarrow>
                 attr_or_empty c ''id'' \<in> keepIds [mk_vertex ''3'' 300 40 120 60, mk_vertex ''9'' 0 0 120 60]))"
proof -
  let ?els = "[mk_vertex ''3'' 300 40 120 60, mk_vertex ''9'' 0 0 120 60]"
  have p: "css_plain ''3''" "css_plain ''9''" by code_simp+
  then have h1: "\<forall>e \<in> set ?els. css_plain (el_id e)" by (simp add: mk_vertex_def)
  have h2: "has_root doc_A" by code_simp
  have h3: "map el_id (parseXmlToElements (Some doc_A)) = [''2'', ''3'']" by code_simp
  from encode_removes_stale_cells [OF h1, of doc_A] h2
  obtain doc where enc: "encode_elements (has_root doc_A) ?els (prepare ?els doc_A) = Inr doc"
    and res: "elementsToXml (Some doc_A) ?els = Some (map clear_ref doc)"
    and ok: "\<forall>c \<in> set (doc_getElementsByTagName (map clear_ref doc) ''mxCell'').
                 attr_or_empty c ''id'' \<noteq> [] \<longrightarrow> attr_or_empty c ''id'' \<in> keepIds ?els"
    by blast
  have "map (\<lambda>c. attr_or_empty c ''id'') (doc_getElementsByTagName (the (elementsToXml (Some doc_A) ?els)) ''mxCell'')
       = [''0'', ''1'', ''3'', ''9'']"
    by code_simp
  then have ids: "map (\<lambda>c. attr_or_empty c ''id'') (doc_getElementsByTagName (map clear_ref doc) ''mxCell'')
       = [''0'', ''1'', ''3'', ''9'']"
    by (simp add: res)
  show ?thesis
    by (intro conjI exI [of _ "map clear_ref doc"]) (rule p h2 h3 res ids ok)+
qed

subsection \<open>The update of an existing cell\<close>

lemma attrs_with_geometry: "attrs (with_geometry f cell) = attrs cell"
  by (cases cell) (simp add: with_geometry_def)

lemma getAttribute_with_geometry [simp]: "getAttribute (with_geometry f cell) k = getAttribute cell k"
  by (simp add: getAttribute_def attrs_with_geometry)


lemma kids_set_if_truthy [simp]: "kids (set_if_truthy k v n) = kids n"
  by (simp add: set_if_truthy_def)

lemma kids_appendChild [simp]: "kids (appendChild c n) = kids n @ [c]"
  by (cases n) simp








subsection \<open>Round trip\<close>

text \<open>
  Claim C1 at scenario A. The document is decoded, an arrow is added between the two
  blocks, the scene is encoded into the document and decoded again. The arrow comes back
  without its two points: \<open>elementsToXml\<close> writes the first and the last point as source
  and target point, and \<open>parseXmlToElements\<close> reads the points of the array only.
\<close>

theorem roundtrip_loses_edge_points:
  "parseXmlToElements (Some doc_A) = scene_A
   \<and> map el_points (elements (addArrow ''a1'' ''2'' ''3'' (loaded scene_A)))
        = [None, None, Some [\<lparr>pt_x = Num 100, pt_y = Num 70\<rparr>, \<lparr>pt_x = Num 360, pt_y = Num 70\<rparr>]]
   \<and> map el_points (parseXmlToElements (elementsToXml (Some doc_A) (elements (addArrow ''a1'' ''2'' ''3'' (loaded scene_A)))))
        = [None, None, Some []]
   \<and> parseXmlToElements (elementsToXml (Some doc_A) (elements (addArrow ''a1'' ''2'' ''3'' (loaded scene_A))))
        \<noteq> elements (addArrow ''a1'' ''2'' ''3'' (loaded scene_A))"
  by code_simp

subsection \<open>Numeric attributes\<close>










end
